theory Spec2Isabelle
  imports Complex_Main
begin

section \<open>JavaScript values\<close>

text \<open>
  The viewer (\<^verbatim>\<open>src/frontend/js/renderer.js\<close>) and the page controller
  (\<^verbatim>\<open>App\<close>) work on values parsed from JSON. A value is modelled as it is at
  run time: \<^verbatim>\<open>undefined\<close>, \<^verbatim>\<open>null\<close>, a boolean, a number, a string, an
  array, or an object with its own properties in the engine's enumeration order (a key
  occurs once). \<open>JHost\<close> stands for an object of the host that no JSON text
  produces: \<^verbatim>\<open>Object.prototype\<close> and the functions it holds. Numbers are reals: the
  rounding of IEEE doubles, \<^verbatim>\<open>NaN\<close> and the infinities are outside the model.
\<close>

datatype jsval =
    JUndefined
  | JNull
  | JBool bool
  | JNum real
  | JStr string
  | JArr "jsval list"
  | JObj "(string \<times> jsval) list"
  | JHost string

text \<open>
  What a JavaScript operation can do besides returning: raise (\<open>Rejected\<close> is the
  rejection of a \<^verbatim>\<open>fetch\<close> or of reading its body, with its message), or meet a
  conversion the model does not describe (the text of a number, of an array or of an
  object). An operation on the renderer that raises leaves the state it had reached.
\<close>

datatype exn = TypeError | Rejected string

datatype 'a result = Ok 'a | Throw exn | Unmodelled

datatype 's effect = Returned 's | Raised exn 's | Outside

text \<open>\<^verbatim>\<open>ToBoolean\<close>: the values \<^verbatim>\<open>if (v)\<close>, \<^verbatim>\<open>!v\<close> and \<^verbatim>\<open>v || w\<close> take for true.\<close>

fun truthy :: "jsval \<Rightarrow> bool" where
  "truthy JUndefined = False"
| "truthy JNull = False"
| "truthy (JBool b) = b"
| "truthy (JNum r) = (r \<noteq> 0)"
| "truthy (JStr s) = (s \<noteq> [])"
| "truthy (JArr xs) = True"
| "truthy (JObj kvs) = True"
| "truthy (JHost h) = True"

definition js_or :: "jsval \<Rightarrow> jsval \<Rightarrow> jsval" where
  "js_or a b = (if truthy a then a else b)"

fun nullish :: "jsval \<Rightarrow> bool" where
  "nullish JUndefined = True"
| "nullish JNull = True"
| "nullish v = False"

text \<open>
  \<open>js_get v p\<close> is \<^verbatim>\<open>v.p\<close> for a \<open>v\<close> that is neither \<^verbatim>\<open>null\<close> nor
  \<^verbatim>\<open>undefined\<close>, for the property names the modelled code reads with a dot
  (\<^verbatim>\<open>components\<close>, \<^verbatim>\<open>Vector3\<close>, \<^verbatim>\<open>motion_id\<close>, ...): none of them is a member of
  a built-in prototype, so only an own property of an object answers.
  The plain read raises \<^verbatim>\<open>TypeError\<close> on \<^verbatim>\<open>null\<close> and \<^verbatim>\<open>undefined\<close>: each
  place where the source can meet one tests \<open>nullish\<close> first. \<open>js_opt\<close> is
  \<^verbatim>\<open>v?.p\<close>.
\<close>

fun js_get :: "jsval \<Rightarrow> string \<Rightarrow> jsval" where
  "js_get (JObj kvs) p = (case map_of kvs p of Some v \<Rightarrow> v | None \<Rightarrow> JUndefined)"
| "js_get v p = JUndefined"

definition js_opt :: "jsval \<Rightarrow> string \<Rightarrow> jsval" where
  "js_opt v p = (if nullish v then JUndefined else js_get v p)"

text \<open>Decimal rendering of an array index, the property key of \<^verbatim>\<open>v[i]\<close>.\<close>

fun digit_char :: "nat \<Rightarrow> char" where
  "digit_char n = (''0123456789'' ! (n mod 10))"

fun index_key :: "nat \<Rightarrow> string" where
  "index_key n = (if n < 10 then [digit_char n] else index_key (n div 10) @ [digit_char n])"

declare index_key.simps [simp del]

text \<open>\<open>js_index v i\<close> is \<^verbatim>\<open>v[i]\<close> for a \<open>v\<close> that is not nullish.\<close>

fun js_index :: "jsval \<Rightarrow> nat \<Rightarrow> jsval" where
  "js_index (JArr xs) i = (if i < length xs then xs ! i else JUndefined)"
| "js_index (JStr s) i = (if i < length s then JStr [s ! i] else JUndefined)"
| "js_index (JObj kvs) i = (case map_of kvs (index_key i) of Some v \<Rightarrow> v | None \<Rightarrow> JUndefined)"
| "js_index v i = JUndefined"

fun is_array :: "jsval \<Rightarrow> bool" where
  "is_array (JArr xs) = True"
| "is_array v = False"

text \<open>
  Whether a value converts to a primitive, as arithmetic (\<^verbatim>\<open>ToNumber\<close>) and template
  literals (\<^verbatim>\<open>ToString\<close>) need it; the conversion raises \<^verbatim>\<open>TypeError\<close> otherwise.
  A primitive is one. A parsed object converts through the inherited
  \<^verbatim>\<open>Object.prototype.toString\<close>, unless an own property \<^verbatim>\<open>toString\<close> hides it (a
  parsed value is never callable, and the inherited \<^verbatim>\<open>valueOf\<close> returns the object).
  An array converts through \<^verbatim>\<open>join\<close>, which converts its elements.
\<close>

fun convertible :: "jsval \<Rightarrow> bool" where
  "convertible (JObj kvs) = (map_of kvs ''toString'' = None)"
| "convertible (JArr xs) = list_all convertible xs"
| "convertible v = True"

section \<open>The renderer's state\<close>

text \<open>
  A geometry records the constructor \<^verbatim>\<open>createEntityMesh\<close> called and the arguments
  it passed (the fixed segment counts are left out). A mesh records what the renderer
  sets on it; \<open>quaternion\<close> is the list of axis-angle rotations premultiplied so far,
  newest first, each with the axis, the speed and the frame time it was computed from.
  The material's colour is drawn with \<^verbatim>\<open>Math.random\<close> and is not modelled.
  The scene-graph library (\<^verbatim>\<open>THREE\<close>) is not among the sources. What the model
  takes from it: a geometry constructor computes with each of its arguments, setting
  the rotation of a mesh computes its quaternion from the three angles, and
  \<^verbatim>\<open>normalize\<close> computes with the three components of a vector, and each of these
  raises \<^verbatim>\<open>TypeError\<close> on a value that does not convert to a primitive; setting a
  position or a name only stores the values.
\<close>

datatype geometry =
    BoxGeometry jsval jsval jsval
  | SphereGeometry jsval
  | CylinderGeometry jsval jsval jsval
  | ConeGeometry jsval jsval
  | PlaneGeometry jsval jsval

record applied_rotation =
  axis :: jsval
  speed :: jsval
  delta :: real

record mesh =
  name :: jsval
  geom :: geometry
  position :: "jsval \<times> jsval \<times> jsval"
  rotation :: "jsval \<times> jsval \<times> jsval"
  userData :: jsval
  quaternion :: "applied_rotation list"

record timeline_event =
  start :: jsval
  duration :: jsval
  motion :: jsval

record renderer =
  objects :: "mesh list"
  motions :: jsval
  timelineEvents :: "timeline_event list"
  isPlaying :: bool
  currentTime :: real
  lastTimestamp :: "real option"
  cameraPosition :: "real \<times> real \<times> real"
  objectCount :: nat

section \<open>Entities\<close>

text \<open>\<^verbatim>\<open>extractVector3\<close>, renderer.js lines 324 to 330.\<close>

definition extractVector3 :: "jsval \<Rightarrow> jsval" where
  "extractVector3 vectorData =
     (if \<not> truthy vectorData then JNull
      else if is_array vectorData then vectorData
      else if truthy (js_get vectorData ''Vector3'') then js_get vectorData ''Vector3''
      else if truthy (js_get vectorData ''Array'') then js_get vectorData ''Array''
      else JNull)"

text \<open>
  The body of \<^verbatim>\<open>createEntityMesh\<close> (lines 255 to 315), split as the source's comments
  split it: the transform vectors, the primitive, the geometry of the \<^verbatim>\<open>switch\<close>.
\<close>

definition transformProps :: "jsval \<Rightarrow> jsval" where
  "transformProps entity =
     (let components = js_or (js_get entity ''components'') (JObj []);
          transform = js_or (js_get components ''transform'') (JObj [])
      in js_or (js_get transform ''properties'') (JObj []))"

definition entity_position :: "jsval \<Rightarrow> jsval" where
  "entity_position entity =
     js_or (extractVector3 (js_get (transformProps entity) ''position''))
           (JArr [JNum 0, JNum 0, JNum 0])"

definition entity_rotation :: "jsval \<Rightarrow> jsval" where
  "entity_rotation entity =
     js_or (extractVector3 (js_get (transformProps entity) ''rotation''))
           (JArr [JNum 0, JNum 0, JNum 0])"

definition entity_scale :: "jsval \<Rightarrow> jsval" where
  "entity_scale entity =
     js_or (extractVector3 (js_get (transformProps entity) ''scale''))
           (JArr [JNum 1, JNum 1, JNum 1])"

definition primitiveObj :: "jsval \<Rightarrow> jsval" where
  "primitiveObj entity =
     (let components = js_or (js_get entity ''components'') (JObj []);
          geometry = js_or (js_get components ''geometry'') (JObj []);
          geometryProps = js_or (js_get geometry ''properties'') (JObj [])
      in js_get geometryProps ''primitive'')"

definition entity_primitive :: "jsval \<Rightarrow> jsval" where
  "entity_primitive entity =
     js_or (js_or (js_opt (primitiveObj entity) ''Identifier'') (primitiveObj entity))
           (JStr ''cube'')"

definition make_geometry :: "jsval \<Rightarrow> jsval \<Rightarrow> geometry" where
  "make_geometry primitive scale =
     (if primitive = JStr ''cube''
        then BoxGeometry (js_index scale 0) (js_index scale 1) (js_index scale 2)
      else if primitive = JStr ''sphere'' then SphereGeometry (js_index scale 0)
      else if primitive = JStr ''cylinder''
        then CylinderGeometry (js_index scale 0) (js_index scale 0) (js_index scale 1)
      else if primitive = JStr ''cone'' then ConeGeometry (js_index scale 0) (js_index scale 1)
      else if primitive = JStr ''plane'' then PlaneGeometry (js_index scale 0) (js_index scale 1)
      else BoxGeometry (JNum 1) (JNum 1) (JNum 1))"

definition entity_mesh :: "jsval \<Rightarrow> jsval \<Rightarrow> mesh" where
  "entity_mesh nm entity =
     (let pos = entity_position entity; rot = entity_rotation entity
      in \<lparr> name = nm,
           geom = make_geometry (entity_primitive entity) (entity_scale entity),
           position = (js_index pos 0, js_index pos 1, js_index pos 2),
           rotation = (js_index rot 0, js_index rot 1, js_index rot 2),
           userData = entity,
           quaternion = [] \<rparr>)"

text \<open>The arguments handed to the geometry constructor.\<close>

fun geometry_arguments :: "geometry \<Rightarrow> jsval list" where
  "geometry_arguments (BoxGeometry a b c) = [a, b, c]"
| "geometry_arguments (SphereGeometry a) = [a]"
| "geometry_arguments (CylinderGeometry a b c) = [a, b, c]"
| "geometry_arguments (ConeGeometry a b) = [a, b]"
| "geometry_arguments (PlaneGeometry a b) = [a, b]"

text \<open>
  Whether lines 273 to 307 run through for the mesh: the geometry arguments and the
  three angles of the rotation convert to numbers.
\<close>

definition mesh_convertible :: "mesh \<Rightarrow> bool" where
  "mesh_convertible m =
     (list_all convertible (geometry_arguments (geom m))
      \<and> convertible (fst (rotation m))
      \<and> convertible (fst (snd (rotation m)))
      \<and> convertible (snd (snd (rotation m))))"

text \<open>
  The \<^verbatim>\<open>catch\<close> of line 319 logs a message built from the name with a template
  literal, so it raises in turn when the name does not convert to a string.
\<close>

definition log_creation_error :: "jsval \<Rightarrow> renderer \<Rightarrow> renderer effect" where
  "log_creation_error nm r = (if convertible nm then Returned r else Raised TypeError r)"

text \<open>
  \<^verbatim>\<open>createEntityMesh(name, entity)\<close>. The \<^verbatim>\<open>try\<close> block raises at
  \<^verbatim>\<open>entity.components\<close> on a nullish entity, and in the library when the geometry or
  the rotation is computed from a value that does not convert; the mesh is then not
  added. Once the mesh is added, line 317 logs the name and the primitive with a
  template literal, which raises when one of them does not convert. Every error of the
  block goes to the \<^verbatim>\<open>catch\<close>.
\<close>

definition createEntityMesh :: "jsval \<Rightarrow> jsval \<Rightarrow> renderer \<Rightarrow> renderer effect" where
  "createEntityMesh nm entity r =
     (if nullish entity then log_creation_error nm r
      else if \<not> mesh_convertible (entity_mesh nm entity) then log_creation_error nm r
      else
        (let r' = r\<lparr> objects := objects r @ [entity_mesh nm entity] \<rparr>
         in if convertible nm \<and> convertible (entity_primitive entity) then Returned r'
            else log_creation_error nm r'))"


section \<open>Motions and timelines\<close>

text \<open>
  \<^verbatim>\<open>ToString\<close>, which is also \<^verbatim>\<open>ToPropertyKey\<close> for the keys of
  \<^verbatim>\<open>motionMap[m.id]\<close>, on the values whose text is fixed by their shape.
\<close>

fun to_string :: "jsval \<Rightarrow> string option" where
  "to_string (JStr s) = Some s"
| "to_string JUndefined = Some ''undefined''"
| "to_string JNull = Some ''null''"
| "to_string (JBool b) = Some (if b then ''true'' else ''false'')"
| "to_string v = None"

text \<open>
  \<^verbatim>\<open>const motionMap = {}\<close> (line 344) is an ordinary object: besides the properties
  \<^verbatim>\<open>loadMotions\<close> stores in it, it answers for what it inherits. \<open>own\<close> holds the
  stored properties, newest first; \<open>proto\<close> is its prototype, \<open>None\<close> for
  \<^verbatim>\<open>Object.prototype\<close> and \<open>Some kvs\<close> for a parsed object with the own properties
  \<open>kvs\<close> (whose prototype is \<^verbatim>\<open>Object.prototype\<close> in turn). The prototype changes
  when the key is \<^verbatim>\<open>__proto__\<close>: the assignment then runs the setter inherited from
  \<^verbatim>\<open>Object.prototype\<close> and stores no property, unless an own property of that name
  is met before the setter. \<^verbatim>\<open>loadMotions\<close> assigns
  \<open>m\<close> under the key of \<^verbatim>\<open>m.id\<close>, so a value assigned under \<^verbatim>\<open>__proto__\<close> is an
  object with an own \<^verbatim>\<open>id\<close>.
\<close>

record motion_map =
  own :: "(string \<times> jsval) list"
  proto :: "(string \<times> jsval) list option"

definition empty_motionMap :: motion_map where
  "empty_motionMap = \<lparr> own = [], proto = None \<rparr>"

definition object_prototype_members :: "string list" where
  "object_prototype_members =
     [''constructor'', ''hasOwnProperty'', ''isPrototypeOf'', ''propertyIsEnumerable'',
      ''toLocaleString'', ''toString'', ''valueOf'', ''__defineGetter__'',
      ''__defineSetter__'', ''__lookupGetter__'', ''__lookupSetter__'']"

definition prototype_of :: "motion_map \<Rightarrow> jsval" where
  "prototype_of mm = (case proto mm of None \<Rightarrow> JHost ''Object.prototype'' | Some kvs \<Rightarrow> JObj kvs)"

definition object_prototype_get :: "motion_map \<Rightarrow> string \<Rightarrow> jsval" where
  "object_prototype_get mm k =
     (if k = ''__proto__'' then prototype_of mm
      else if k \<in> set object_prototype_members then JHost (''Object.prototype.'' @ k)
      else JUndefined)"

definition inherited_get :: "motion_map \<Rightarrow> string \<Rightarrow> jsval" where
  "inherited_get mm k =
     (case proto mm of
        None \<Rightarrow> object_prototype_get mm k
      | Some kvs \<Rightarrow> (case map_of kvs k of Some v \<Rightarrow> v | None \<Rightarrow> object_prototype_get mm k))"

definition motionMap_get :: "motion_map \<Rightarrow> string \<Rightarrow> jsval" where
  "motionMap_get mm k =
     (case map_of (own mm) k of Some v \<Rightarrow> v | None \<Rightarrow> inherited_get mm k)"

text \<open>
  An assignment reaches the setter of \<^verbatim>\<open>Object.prototype\<close> when the key is
  \<^verbatim>\<open>__proto__\<close> and neither the map nor its prototype has an own property of that
  name (a parsed object can have one); any other assignment stores an own property.
\<close>

definition reaches_setter :: "motion_map \<Rightarrow> string \<Rightarrow> bool" where
  "reaches_setter mm k =
     (k = ''__proto__'' \<and> map_of (own mm) k = None
      \<and> (case proto mm of None \<Rightarrow> True | Some kvs \<Rightarrow> map_of kvs k = None))"

definition motionMap_set :: "motion_map \<Rightarrow> string \<Rightarrow> jsval \<Rightarrow> motion_map" where
  "motionMap_set mm k v =
     (if reaches_setter mm k
        then (case v of JObj kvs \<Rightarrow> mm\<lparr> proto := Some kvs \<rparr> | _ \<Rightarrow> mm)
      else mm\<lparr> own := (k, v) # own mm \<rparr>)"

text \<open>Line 345: \<^verbatim>\<open>forEach(m => { motionMap[m.id] = m; })\<close>.\<close>

fun fill_motionMap :: "jsval list \<Rightarrow> motion_map \<Rightarrow> motion_map effect" where
  "fill_motionMap [] mm = Returned mm"
| "fill_motionMap (m # ms) mm =
     (if nullish m then Raised TypeError mm
      else (case to_string (js_get m ''id'') of
              None \<Rightarrow> Outside
            | Some k \<Rightarrow> fill_motionMap ms (motionMap_set mm k m)))"

text \<open>
  Lines 348 to 354, the body run for one event: the entries it pushes (none or one).
\<close>

definition event_entries :: "motion_map \<Rightarrow> jsval \<Rightarrow> timeline_event list result" where
  "event_entries mm ev =
     (if nullish ev then Throw TypeError
      else (case to_string (js_get ev ''motion_id'') of
              None \<Rightarrow> Unmodelled
            | Some k \<Rightarrow>
                (let found = js_or (motionMap_get mm k) JNull
                 in if \<not> truthy found then Ok []
                    else Ok [\<lparr> start = js_or (js_or (js_get ev ''start_time'') (js_get ev ''start'')) (JNum 0),
                              duration = js_or (js_get ev ''duration'') (JNum 0),
                              motion = found \<rparr>])))"

fun load_events :: "motion_map \<Rightarrow> jsval list \<Rightarrow> timeline_event list \<Rightarrow> timeline_event list effect" where
  "load_events mm [] acc = Returned acc"
| "load_events mm (ev # evs) acc =
     (case event_entries mm ev of
        Ok es \<Rightarrow> load_events mm evs (acc @ es)
      | Throw e \<Rightarrow> Raised e acc
      | Unmodelled \<Rightarrow> Outside)"

text \<open>
  \<^verbatim>\<open>xs.forEach\<close> on a value that is not nullish: an array runs the callback on its
  elements; any other value parsed from JSON has no callable \<^verbatim>\<open>forEach\<close>, and the
  call raises.
\<close>

fun load_timelines :: "motion_map \<Rightarrow> jsval list \<Rightarrow> timeline_event list \<Rightarrow> timeline_event list effect" where
  "load_timelines mm [] acc = Returned acc"
| "load_timelines mm (tline # tls) acc =
     (if nullish tline then Raised TypeError acc
      else (case js_or (js_get tline ''events'') (JArr []) of
              JArr evs \<Rightarrow>
                (case load_events mm evs acc of
                   Returned acc' \<Rightarrow> load_timelines mm tls acc'
                 | Raised e acc' \<Rightarrow> Raised e acc'
                 | Outside \<Rightarrow> Outside)
            | _ \<Rightarrow> Raised TypeError acc))"

text \<open>\<^verbatim>\<open>loadMotions(motions, timelines)\<close>, lines 340 to 358.\<close>

definition loadMotions :: "jsval \<Rightarrow> jsval \<Rightarrow> renderer \<Rightarrow> renderer effect" where
  "loadMotions ms tls r =
     (let r1 = r\<lparr> motions := js_or ms (JArr []), timelineEvents := [] \<rparr>
      in case js_or (motions r1) (JArr []) of
           JArr ml \<Rightarrow>
             (case fill_motionMap ml empty_motionMap of
                Returned mm \<Rightarrow>
                  (case js_or tls (JArr []) of
                     JArr tll \<Rightarrow>
                       (case load_timelines mm tll [] of
                          Returned evs \<Rightarrow> Returned (r1\<lparr> timelineEvents := evs \<rparr>)
                        | Raised e evs \<Rightarrow> Raised e (r1\<lparr> timelineEvents := evs \<rparr>)
                        | Outside \<Rightarrow> Outside)
                   | _ \<Rightarrow> Raised TypeError r1)
              | Raised e mm \<Rightarrow> Raised e r1
              | Outside \<Rightarrow> Outside)
         | _ \<Rightarrow> Raised TypeError r1)"

section \<open>Animation\<close>

text \<open>
  Line 183, \<^verbatim>\<open>if (t < start || t > (start + duration)) return;\<close>: whether the event
  passes the test at time \<open>t\<close>. The numbers of the program are IEEE doubles: a
  \<open>JNum\<close> holds the real value of one, so the comparisons are those of the reals, but
  the sum is the rounded sum of the machine. It is the parameter \<open>fadd\<close> of the model
  (a sum that overflows is outside the model, as the infinities are). An event whose
  \<open>start\<close> or \<open>duration\<close> is not a number is outside the model.
\<close>

definition event_active :: "(real \<Rightarrow> real \<Rightarrow> real) \<Rightarrow> real \<Rightarrow> timeline_event \<Rightarrow> bool option" where
  "event_active fadd t evt =
     (case start evt of
        JNum s \<Rightarrow>
          (if t < s then Some False
           else (case duration evt of
                   JNum d \<Rightarrow> Some (\<not> (t > fadd s d))
                 | _ \<Rightarrow> None))
      | _ \<Rightarrow> None)"

text \<open>
  \<^verbatim>\<open>===\<close> between two values read from different places of the parsed scene:
  primitives are compared by value, and two objects or arrays are never the same object.
\<close>

fun strict_eq :: "jsval \<Rightarrow> jsval \<Rightarrow> bool" where
  "strict_eq JUndefined JUndefined = True"
| "strict_eq JNull JNull = True"
| "strict_eq (JBool a) (JBool b) = (a = b)"
| "strict_eq (JNum a) (JNum b) = (a = b)"
| "strict_eq (JStr a) (JStr b) = (a = b)"
| "strict_eq v w = False"

text \<open>
  The predicate of \<^verbatim>\<open>findObjectByName\<close> (line 204). \<^verbatim>\<open>String(name)\<close> is computed
  only when the first two comparisons fail.
\<close>

definition object_matches :: "jsval \<Rightarrow> mesh \<Rightarrow> bool option" where
  "object_matches target obj =
     (if strict_eq (name obj) target then Some True
      else if strict_eq (js_opt (userData obj) ''id'') target then Some True
      else (case to_string target of
              None \<Rightarrow> None
            | Some s \<Rightarrow> Some (strict_eq (js_opt (userData obj) ''id'') (JStr s))))"

text \<open>
  \<^verbatim>\<open>this.objects.find(...)\<close>: the index of the first object that matches,
  \<open>Ok None\<close> when none does.
\<close>

fun find_object :: "jsval \<Rightarrow> mesh list \<Rightarrow> nat \<Rightarrow> nat option result" where
  "find_object target [] i = Ok None"
| "find_object target (obj # objs) i =
     (case object_matches target obj of
        None \<Rightarrow> Unmodelled
      | Some True \<Rightarrow> Ok (Some i)
      | Some False \<Rightarrow> find_object target objs (Suc i))"

definition findObjectByName :: "renderer \<Rightarrow> jsval \<Rightarrow> nat option result" where
  "findObjectByName r target = find_object target (objects r) 0"

text \<open>Lines 188 and 189: the axis and the speed of a rotation.\<close>

definition motion_axis :: "jsval \<Rightarrow> jsval" where
  "motion_axis m =
     (let parameters = js_get m ''parameters''
      in js_or (js_or (js_opt (js_opt parameters ''axis'') ''Vector3'') (js_opt parameters ''axis''))
               (JArr [JNum 0, JNum 1, JNum 0]))"

definition motion_speed :: "jsval \<Rightarrow> jsval" where
  "motion_speed m =
     (let parameters = js_get m ''parameters''
      in js_or (js_or (js_opt (js_opt parameters ''speed'') ''Number'') (js_opt parameters ''speed''))
               (JNum 0))"

text \<open>
  Lines 185 to 199, run for an event that passed the test of line 183: a rotation is
  premultiplied to the quaternion of the target object. Line 194 normalizes the axis
  and line 195 multiplies the speed by the frame time: both raise on a value that does
  not convert to a number, and nothing is rotated then.
\<close>

definition apply_motion :: "real \<Rightarrow> jsval \<Rightarrow> renderer \<Rightarrow> renderer effect" where
  "apply_motion dt m r =
     (if \<not> truthy m then Returned r
      else if js_get m ''motion_type'' = JStr ''rotation'' then
        (case findObjectByName r (js_get m ''target_entity'') of
           Unmodelled \<Rightarrow> Outside
         | Throw e \<Rightarrow> Raised e r
         | Ok None \<Rightarrow> Returned r
         | Ok (Some i) \<Rightarrow>
             (let a = motion_axis m; sp = motion_speed m; obj = objects r ! i;
                  q = \<lparr> axis = a, speed = sp, delta = dt \<rparr>
              in if convertible (js_index a 0) \<and> convertible (js_index a 1)
                    \<and> convertible (js_index a 2) \<and> convertible sp
                   then Returned (r\<lparr> objects := (objects r)[i := obj\<lparr> quaternion := q # quaternion obj \<rparr>] \<rparr>)
                 else Raised TypeError r))
      else Returned r)"

definition animate_event :: "(real \<Rightarrow> real \<Rightarrow> real) \<Rightarrow> real \<Rightarrow> timeline_event \<Rightarrow> renderer \<Rightarrow> renderer effect" where
  "animate_event fadd dt evt r =
     (case event_active fadd (currentTime r) evt of
        None \<Rightarrow> Outside
      | Some False \<Rightarrow> Returned r
      | Some True \<Rightarrow> apply_motion dt (motion evt) r)"

text \<open>
  The \<^verbatim>\<open>forEach\<close> of line 180: an error of one round ends the loop and the method.
\<close>

fun animate_events :: "(real \<Rightarrow> real \<Rightarrow> real) \<Rightarrow> real \<Rightarrow> timeline_event list \<Rightarrow> renderer \<Rightarrow> renderer effect" where
  "animate_events fadd dt [] r = Returned r"
| "animate_events fadd dt (evt # evts) r =
     (case animate_event fadd dt evt r of
        Returned r' \<Rightarrow> animate_events fadd dt evts r'
      | Raised e r' \<Rightarrow> Raised e r'
      | Outside \<Rightarrow> Outside)"

text \<open>\<^verbatim>\<open>updateAnimations(delta)\<close>, lines 177 to 201.\<close>

definition updateAnimations :: "(real \<Rightarrow> real \<Rightarrow> real) \<Rightarrow> real \<Rightarrow> renderer \<Rightarrow> renderer effect" where
  "updateAnimations fadd dt r = animate_events fadd dt (timelineEvents r) r"

section \<open>Loading a scene\<close>

definition clearScene :: "renderer \<Rightarrow> renderer" where
  "clearScene r =
     r\<lparr> objects := [], motions := JArr [], timelineEvents := [], cameraPosition := (0, 10, 15) \<rparr>"

text \<open>
  \<^verbatim>\<open>fitCameraToScene\<close>, lines 376 to 386. Line 382 calls \<^verbatim>\<open>Math.isNaN(size)\<close>. The
  \<^verbatim>\<open>Math\<close> object of ECMAScript has no member \<^verbatim>\<open>isNaN\<close> (the function is the
  global \<^verbatim>\<open>isNaN\<close>, or \<^verbatim>\<open>Number.isNaN\<close>), so the callee is \<^verbatim>\<open>undefined\<close> and the
  call raises \<^verbatim>\<open>TypeError\<close> before the camera is moved. The three lines before it
  only measure the scene.
\<close>

definition fitCameraToScene :: "renderer \<Rightarrow> renderer effect" where
  "fitCameraToScene r = Raised TypeError r"

text \<open>
  Lines 220 to 222: an array gives its elements, and \<^verbatim>\<open>Object.values\<close> gives the own
  enumerable values of anything else that is truthy.
\<close>

fun entitiesList :: "jsval \<Rightarrow> jsval list" where
  "entitiesList (JArr xs) = xs"
| "entitiesList (JObj kvs) = map snd kvs"
| "entitiesList (JStr s) = map (\<lambda>c. JStr [c]) s"
| "entitiesList v = []"

text \<open>
  Lines 224 to 227; \<^verbatim>\<open>entity.id\<close> raises on a nullish element, and an error that
  leaves \<^verbatim>\<open>createEntityMesh\<close> ends the loop.
\<close>

fun load_entities :: "jsval list \<Rightarrow> renderer \<Rightarrow> renderer effect" where
  "load_entities [] r = Returned r"
| "load_entities (entity # es) r =
     (if nullish entity then Raised TypeError r
      else (case createEntityMesh (js_or (js_get entity ''id'') (JStr ''unknown'')) entity r of
              Returned r' \<Rightarrow> load_entities es r'
            | Raised e r' \<Rightarrow> Raised e r'
            | Outside \<Rightarrow> Outside))"

text \<open>
  \<^verbatim>\<open>loadScene(irScene)\<close>, lines 207 to 249. The \<^verbatim>\<open>catch\<close> logs and raises the
  error again, so an error of the \<^verbatim>\<open>try\<close> block is the method's.
\<close>

definition load_entities_step :: "jsval \<Rightarrow> renderer \<Rightarrow> renderer effect" where
  "load_entities_step irScene r =
     (if truthy (js_get irScene ''entities'')
        then load_entities (entitiesList (js_get irScene ''entities'')) r
      else Returned r)"

definition load_motions_step :: "jsval \<Rightarrow> renderer \<Rightarrow> renderer effect" where
  "load_motions_step irScene r =
     (if truthy (js_get irScene ''motions'') \<or> truthy (js_get irScene ''timelines'')
        then loadMotions (js_or (js_get irScene ''motions'') (JArr []))
                         (js_or (js_get irScene ''timelines'') (JArr [])) r
      else Returned r)"

definition fit_and_reset_step :: "renderer \<Rightarrow> renderer effect" where
  "fit_and_reset_step r =
     (case fitCameraToScene (r\<lparr> objectCount := length (objects r) \<rparr>) of
        Returned r' \<Rightarrow> Returned (r'\<lparr> currentTime := 0, lastTimestamp := None \<rparr>)
      | Raised e r' \<Rightarrow> Raised e r'
      | Outside \<Rightarrow> Outside)"

definition loadScene :: "jsval \<Rightarrow> renderer \<Rightarrow> renderer effect" where
  "loadScene irScene r =
     (let r0 = clearScene r
      in if \<not> truthy irScene then Returned r0
         else (case load_entities_step irScene r0 of
                 Returned r1 \<Rightarrow>
                   (case load_motions_step irScene r1 of
                      Returned r2 \<Rightarrow> fit_and_reset_step r2
                    | Raised e r2 \<Rightarrow> Raised e r2
                    | Outside \<Rightarrow> Outside)
               | Raised e r1 \<Rightarrow> Raised e r1
               | Outside \<Rightarrow> Outside))"

section \<open>The page controller\<close>

text \<open>
  \<^verbatim>\<open>AppState\<close> and the part of \<^verbatim>\<open>App\<close> that \<^verbatim>\<open>handleCompile\<close> touches: the
  status line (its text and its kind), the loading overlay, whether the play and reset
  buttons are enabled, and the requests sent with \<^verbatim>\<open>fetch\<close>, oldest first. The
  elements of the page that the methods look up are taken to exist.
\<close>

record app_state =
  currentScene :: jsval
  statePlaying :: bool
  stateTime :: real

datatype request = Post string jsval

text \<open>
  The text of the status line: a fixed text, \<^verbatim>\<open>Scene loaded: n objects\<close>, or
  \<^verbatim>\<open>Error: \<close> followed by the message of the error caught (whose wording is the
  engine's).
\<close>

datatype status_text = Text string | SceneLoaded nat | ErrorMessage exn

record app =
  state :: app_state
  renderer :: renderer
  status :: "status_text \<times> string"
  loading :: bool
  controlsEnabled :: bool
  requests :: "request list"

definition setScene :: "jsval \<Rightarrow> app_state \<Rightarrow> app_state" where
  "setScene sceneData st = st\<lparr> currentScene := sceneData, stateTime := 0 \<rparr>"

definition updateStatus :: "status_text \<Rightarrow> string \<Rightarrow> app \<Rightarrow> app" where
  "updateStatus txt kind a = a\<lparr> status := (txt, kind) \<rparr>"

definition showLoading :: "bool \<Rightarrow> app \<Rightarrow> app" where
  "showLoading flag a = a\<lparr> loading := flag \<rparr>"

definition enableControls :: "bool \<Rightarrow> app \<Rightarrow> app" where
  "enableControls flag a = a\<lparr> controlsEnabled := flag \<rparr>"

definition setPlaying :: "bool \<Rightarrow> renderer \<Rightarrow> renderer" where
  "setPlaying flag r = r\<lparr> isPlaying := flag \<rparr>"

definition send :: "request \<Rightarrow> app \<Rightarrow> app" where
  "send rq a = a\<lparr> requests := requests a @ [rq] \<rparr>"

text \<open>\<^verbatim>\<open>Array.prototype.join\<close> on strings.\<close>

fun join_strings :: "string \<Rightarrow> string list \<Rightarrow> string" where
  "join_strings sep [] = []"
| "join_strings sep [x] = x"
| "join_strings sep (x # y # ys) = x @ sep @ join_strings sep (y # ys)"

text \<open>
  The text \<^verbatim>\<open>join\<close> gives an element: a string is itself, \<^verbatim>\<open>null\<close> and
  \<^verbatim>\<open>undefined\<close> are empty, and the text of any other element is outside the model.
\<close>

fun join_text :: "jsval \<Rightarrow> string option" where
  "join_text (JStr s) = Some s"
| "join_text JNull = Some []"
| "join_text JUndefined = Some []"
| "join_text v = None"

fun join_texts :: "jsval list \<Rightarrow> string list option" where
  "join_texts [] = Some []"
| "join_texts (x # xs) =
     (case join_text x of
        None \<Rightarrow> None
      | Some s \<Rightarrow> (case join_texts xs of None \<Rightarrow> None | Some ss \<Rightarrow> Some (s # ss)))"

text \<open>
  \<^verbatim>\<open>v.join(sep)\<close> for a \<open>v\<close> parsed from JSON: an array is joined; \<^verbatim>\<open>null\<close> and
  \<^verbatim>\<open>undefined\<close> have no properties and any other value has no callable
  \<^verbatim>\<open>join\<close>, so the call raises.
\<close>

definition js_join :: "jsval \<Rightarrow> string \<Rightarrow> string result" where
  "js_join v sep =
     (case v of
        JArr xs \<Rightarrow> (case join_texts xs of None \<Rightarrow> Unmodelled | Some ss \<Rightarrow> Ok (join_strings sep ss))
      | _ \<Rightarrow> Throw TypeError)"

text \<open>Lines 127 to 129: the number of entities shown in the status line.\<close>

definition entityCount :: "jsval \<Rightarrow> nat" where
  "entityCount irScene =
     (case js_get irScene ''entities'' of
        JArr xs \<Rightarrow> length xs
      | v \<Rightarrow> length (entitiesList (js_or v (JObj []))))"

text \<open>The \<^verbatim>\<open>catch\<close> of line 141.\<close>

definition catch_error :: "exn \<Rightarrow> app \<Rightarrow> app" where
  "catch_error e a = updateStatus (ErrorMessage e) ''error'' a"

text \<open>Lines 114 to 139, on the parsed reply of \<^verbatim>\<open>POST /api/compile/\<close>.\<close>

definition on_compile_result :: "jsval \<Rightarrow> app \<Rightarrow> app option" where
  "on_compile_result compileResult a =
     (if nullish compileResult then Some (catch_error TypeError a)
      else if truthy (js_get compileResult ''success'') \<and> truthy (js_get compileResult ''ir_scene'') then
        (let ir_scene = js_get compileResult ''ir_scene''
         in case loadScene ir_scene (renderer a) of
              Outside \<Rightarrow> None
            | Raised e r' \<Rightarrow> Some (catch_error e (a\<lparr> renderer := r' \<rparr>))
            | Returned r' \<Rightarrow>
                (let st = setScene ir_scene (state a);
                     a1 = a\<lparr> renderer := setPlaying (statePlaying st) r', state := st \<rparr>;
                     a2 = enableControls True a1
                 in Some (updateStatus (SceneLoaded (entityCount ir_scene)) ''success'' a2)))
      else
        (let joined = (if nullish (js_get compileResult ''errors'') then Ok []
                       else js_join (js_get compileResult ''errors'') ''; '')
         in case joined of
              Unmodelled \<Rightarrow> None
            | Throw e \<Rightarrow> Some (catch_error e a)
            | Ok errors \<Rightarrow>
                Some (updateStatus
                        (Text (''Compilation failed: '' @ (if errors = [] then ''Unknown error'' else errors)))
                        ''error'' a)))"

text \<open>Lines 86 to 139: the \<^verbatim>\<open>try\<close> block with its \<^verbatim>\<open>catch\<close>.\<close>

definition validate_then_compile :: "string \<Rightarrow> exn + jsval \<Rightarrow> exn + jsval \<Rightarrow> app \<Rightarrow> app option" where
  "validate_then_compile dslSource validateReply compileReply a =
     (let a1 = send (Post ''/api/compile/validate'' (JObj [(''dsl_source'', JStr dslSource)])) a
      in case validateReply of
           Inl e \<Rightarrow> Some (catch_error e a1)
         | Inr validateResult \<Rightarrow>
             if nullish validateResult then Some (catch_error TypeError a1)
             else if \<not> truthy (js_get validateResult ''valid'') then
               (case js_join (js_get validateResult ''errors'') ''; '' of
                  Unmodelled \<Rightarrow> None
                | Throw e \<Rightarrow> Some (catch_error e a1)
                | Ok errors \<Rightarrow>
                    Some (showLoading False
                           (updateStatus (Text (''Validation failed: '' @ errors)) ''error'' a1)))
             else
               (let a2 = send (Post ''/api/compile/''
                                (JObj [(''dsl_source'', JStr dslSource), (''optimize'', JBool True)])) a1
                in case compileReply of
                     Inl e \<Rightarrow> Some (catch_error e a2)
                   | Inr compileResult \<Rightarrow> on_compile_result compileResult a2))"

text \<open>
  \<^verbatim>\<open>handleCompile\<close>, lines 74 to 147. \<open>dslSource\<close> is the trimmed text of the
  editor (line 75); \<open>validateReply\<close> and \<open>compileReply\<close> are what the two requests
  would be answered with: the parsed body, or the error \<^verbatim>\<open>fetch\<close> or \<^verbatim>\<open>json()\<close>
  is rejected with. The \<^verbatim>\<open>finally\<close> hides the overlay on every path.
\<close>

definition handleCompile :: "string \<Rightarrow> exn + jsval \<Rightarrow> exn + jsval \<Rightarrow> app \<Rightarrow> app option" where
  "handleCompile dslSource validateReply compileReply a =
     (if dslSource = [] then Some (updateStatus (Text ''Please enter DSL code'') ''error'' a)
      else
        (let a1 = showLoading True (updateStatus (Text ''Compiling...'') ''loading'' a)
         in case validate_then_compile dslSource validateReply compileReply a1 of
              None \<Rightarrow> None
            | Some a2 \<Rightarrow> Some (showLoading False a2)))"

section \<open>Scenes the compiler sends\<close>

text \<open>
  The state the constructor of \<^verbatim>\<open>ThreeRenderer\<close> leaves (lines 8 to 14 and 30), and
  the one \<^verbatim>\<open>App\<close> starts from.
\<close>

definition initial_renderer :: renderer where
  "initial_renderer =
     \<lparr> objects = [], motions = JArr [], timelineEvents = [], isPlaying = True,
       currentTime = 0, lastTimestamp = None, cameraPosition = (0, 10, 15), objectCount = 0 \<rparr>"

definition initial_app :: app where
  "initial_app =
     \<lparr> state = \<lparr> currentScene = JNull, statePlaying = True, stateTime = 0 \<rparr>,
       renderer = initial_renderer,
       status = (Text [], ''info''),
       loading = False,
       controlsEnabled = False,
       requests = [] \<rparr>"

text \<open>
  The JSON shape of the motions and timelines of an IR scene, as section 6 of the
  specification gives it: a motion is
  \<^verbatim>\<open>{ "id", "motion_type", "target_entity", "parameters" }\<close>, a timeline is
  \<^verbatim>\<open>{ "id", "events" }\<close> and an event is
  \<^verbatim>\<open>{ "motion_id", "start_time", "duration" }\<close>.
\<close>

datatype ir_motion =
  IrMotion (m_id: string) (m_type: string) (m_target: string) (m_parameters: "(string \<times> jsval) list")

datatype ir_event =
  IrEvent (e_motion_id: string) (e_start_time: real) (e_duration: real)

datatype ir_timeline =
  IrTimeline (t_id: string) (t_events: "ir_event list")

definition motion_props :: "ir_motion \<Rightarrow> (string \<times> jsval) list" where
  "motion_props m =
     [(''id'', JStr (m_id m)), (''motion_type'', JStr (m_type m)),
      (''target_entity'', JStr (m_target m)), (''parameters'', JObj (m_parameters m))]"

definition motion_json :: "ir_motion \<Rightarrow> jsval" where
  "motion_json m = JObj (motion_props m)"

definition event_json :: "ir_event \<Rightarrow> jsval" where
  "event_json e =
     JObj [(''motion_id'', JStr (e_motion_id e)), (''start_time'', JNum (e_start_time e)),
           (''duration'', JNum (e_duration e))]"

definition timeline_json :: "ir_timeline \<Rightarrow> jsval" where
  "timeline_json t = JObj [(''id'', JStr (t_id t)), (''events'', JArr (map event_json (t_events t)))]"

section \<open>Inputs named in the properties\<close>

text \<open>The five names the \<^verbatim>\<open>switch\<close> of \<^verbatim>\<open>createEntityMesh\<close> has a case for.\<close>

definition known_primitive :: "jsval \<Rightarrow> bool" where
  "known_primitive p = (p = JStr ''cube'' \<or> p = JStr ''sphere'' \<or> p = JStr ''cylinder''
      \<or> p = JStr ''cone'' \<or> p = JStr ''plane'')"

text \<open>
  A value in which \<^verbatim>\<open>extractVector3\<close> finds no vector: it is falsy (absent, for one),
  or it is not an array and has no truthy \<^verbatim>\<open>Vector3\<close> or \<^verbatim>\<open>Array\<close> member.
\<close>

definition no_vector :: "jsval \<Rightarrow> bool" where
  "no_vector v =
     (\<not> truthy v
      \<or> (\<not> is_array v \<and> \<not> truthy (js_get v ''Vector3'') \<and> \<not> truthy (js_get v ''Array'')))"

text \<open>The three components read from a vector.\<close>

definition components3 :: "jsval \<Rightarrow> jsval \<times> jsval \<times> jsval" where
  "components3 v = (js_index v 0, js_index v 1, js_index v 2)"

text \<open>An entity whose position is a bare array, with no \<^verbatim>\<open>Vector3\<close> tag.\<close>

definition bare_entity :: jsval where
  "bare_entity = JObj [(''id'', JStr ''e''), (''kind'', JStr ''solid''),
     (''components'', JObj [(''transform'', JObj [(''component_type'', JStr ''transform''),
        (''properties'', JObj [(''position'', JArr [JNum 1, JNum 2, JNum 3])])])])]"

text \<open>An entity with a geometry component whose primitive is \<open>prim\<close>.\<close>

definition sphere_entity :: "jsval \<Rightarrow> jsval" where
  "sphere_entity prim = JObj [(''id'', JStr ''ball''), (''kind'', JStr ''solid''),
     (''components'', JObj [(''geometry'', JObj [(''component_type'', JStr ''geometry''),
        (''properties'', JObj [(''primitive'', prim)])])])]"

text \<open>
  What \<^verbatim>\<open>loadMotions\<close> does on a scene of the IR's shape, in closed form:
  \<open>store_motion\<close> is one round of the loop of line 345 and \<open>entries_of\<close> the entries
  one event adds.
\<close>

definition store_motion :: "motion_map \<Rightarrow> ir_motion \<Rightarrow> motion_map" where
  "store_motion mm m = motionMap_set mm (m_id m) (motion_json m)"

definition entries_of :: "motion_map \<Rightarrow> ir_event \<Rightarrow> timeline_event list" where
  "entries_of mm e =
     (let found = js_or (motionMap_get mm (e_motion_id e)) JNull
      in if \<not> truthy found then []
         else [\<lparr> start = JNum (e_start_time e), duration = JNum (e_duration e), motion = found \<rparr>])"

text \<open>The rotation of the sample scenes (\<^verbatim>\<open>spin\<close>, a quarter turn a second about y).\<close>

definition spin_motion :: ir_motion where
  "spin_motion = IrMotion ''spin'' ''rotation'' ''cube1''
     [(''axis'', JObj [(''Vector3'', JArr [JNum 0, JNum 1, JNum 0])]), (''speed'', JObj [(''Number'', JNum 1.5708)])]"

text \<open>The cube of the sample scenes, as the IR gives it, and the mesh made for it.\<close>

definition cube1_entity :: jsval where
  "cube1_entity = JObj [(''id'', JStr ''cube1''), (''kind'', JStr ''solid''),
     (''components'', JObj
        [(''transform'', JObj [(''component_type'', JStr ''transform''),
            (''properties'', JObj [(''position'', JObj [(''Vector3'', JArr [JNum 0, JNum 0, JNum 0])]),
                                   (''rotation'', JObj [(''Vector3'', JArr [JNum 0, JNum 0, JNum 0])]),
                                   (''scale'', JObj [(''Vector3'', JArr [JNum 1, JNum 1, JNum 1])])])]),
         (''geometry'', JObj [(''component_type'', JStr ''geometry''),
            (''properties'', JObj [(''primitive'', JObj [(''Identifier'', JStr ''cube'')])])])])]"

definition cube1_mesh :: mesh where
  "cube1_mesh =
     \<lparr> name = JStr ''cube1'', geom = BoxGeometry (JNum 1) (JNum 1) (JNum 1),
       position = (JNum 0, JNum 0, JNum 0), rotation = (JNum 0, JNum 0, JNum 0),
       userData = cube1_entity, quaternion = [] \<rparr>"

text \<open>A rotation of the cube at speed zero, the speed in its tagged form.\<close>

definition still_motion :: ir_motion where
  "still_motion = IrMotion ''hold'' ''rotation'' ''cube1''
     [(''axis'', JObj [(''Vector3'', JArr [JNum 0, JNum 1, JNum 0])]), (''speed'', JObj [(''Number'', JNum 0)])]"

text \<open>
  An event of the renderer with numbers for its start and its duration, and the
  motions of a list of events run one after the other as lines 185 to 199 run them.
\<close>

definition numeric_event :: "real \<times> real \<times> jsval \<Rightarrow> timeline_event" where
  "numeric_event x = \<lparr> start = JNum (fst x), duration = JNum (fst (snd x)), motion = snd (snd x) \<rparr>"

fun apply_motions :: "real \<Rightarrow> jsval list \<Rightarrow> renderer \<Rightarrow> renderer effect" where
  "apply_motions dt [] r = Returned r"
| "apply_motions dt (m # ms) r =
     (case apply_motion dt m r of
        Returned r' \<Rightarrow> apply_motions dt ms r'
      | Raised e r' \<Rightarrow> Raised e r'
      | Outside \<Rightarrow> Outside)"

text \<open>
  The events of a list whose closed interval, with the sum \<open>fadd\<close>, holds the time
  \<open>t\<close>.
\<close>

definition within_interval :: "(real \<Rightarrow> real \<Rightarrow> real) \<Rightarrow> real \<Rightarrow> real \<times> real \<times> jsval \<Rightarrow> bool" where
  "within_interval fadd t x = (fst x \<le> t \<and> t \<le> fadd (fst x) (fst (snd x)))"

text \<open>
  The renderer at time \<open>t\<close> with the cube loaded and one motion scheduled over the
  given spans (start and duration).
\<close>

definition playing :: "ir_motion \<Rightarrow> (real \<times> real) list \<Rightarrow> real \<Rightarrow> renderer" where
  "playing m spans t =
     initial_renderer\<lparr> objects := [cube1_mesh], motions := JArr [motion_json m],
        timelineEvents := map (\<lambda>(s, d). \<lparr> start = JNum s, duration = JNum d, motion = motion_json m \<rparr>) spans,
        currentTime := t \<rparr>"

text \<open>The request of line 87.\<close>

definition validate_request :: "string \<Rightarrow> request" where
  "validate_request dslSource = Post ''/api/compile/validate'' (JObj [(''dsl_source'', JStr dslSource)])"

text \<open>The IR of a scene with the cube alone (scenario S2 of the specification).\<close>

definition cube_scene :: jsval where
  "cube_scene = JObj [(''metadata'', JObj [(''name'', JStr ''T''), (''version'', JNum 1),
                         (''ir_version'', JStr ''0.1.0''), (''unit_system'', JStr ''SI'')]),
                      (''library_imports'', JObj [(''math'', JStr ''core_mechanics'')]),
                      (''entities'', JArr [cube1_entity]),
                      (''constraints'', JArr []),
                      (''motions'', JArr []),
                      (''timelines'', JArr [])]"

section \<open>The compiler's front end\<close>

text \<open>
  Modelled from the spec: the compiler itself (\<^verbatim>\<open>lexer.rs\<close>, \<^verbatim>\<open>parser.rs\<close>,
  \<^verbatim>\<open>lib.rs\<close> and the validators) is not among the sources; only its grammar
  (\<^verbatim>\<open>src/dsl/grammar.md\<close>) and the fixtures are. The definitions of this section
  follow sections 3, 4.1 to 4.3, 5 and 6 of the specification and the grammar: source
  spans, tokens, diagnostics, the lexer, the syntax tree and the recursive-descent
  parser; the validators and the lowering, which run only on a parsed file, are a
  parameter of \<open>compile\<close>.
\<close>

record source_span =
  byte_offset :: nat
  byte_length :: nat
  line :: nat
  column :: nat

datatype token_kind =
    KwScene | KwEntity | KwComponents | KwConstraint | KwMotion | KwTimeline | KwEvent
  | KwLibraryImports | KwKind
  | Identifier string | Integer string | Number string | StringLit string
  | Colon | Comma | LeftBrace | RightBrace | LeftBracket | RightBracket
  | Eof

type_synonym token = "token_kind \<times> source_span"

record diagnostic =
  code :: nat
  message :: string
  location :: source_span

text \<open>The position of the scanner: offsets count from 0, lines and columns from 1.\<close>

record scan_position =
  pos_offset :: nat
  pos_line :: nat
  pos_column :: nat

definition start_position :: scan_position where
  "start_position = \<lparr> pos_offset = 0, pos_line = 1, pos_column = 1 \<rparr>"

definition newline :: char where
  "newline = CHR 0x0A"

definition quote :: char where
  "quote = CHR 0x22"

definition advance :: "scan_position \<Rightarrow> char \<Rightarrow> scan_position" where
  "advance p c =
     (if c = newline
        then \<lparr> pos_offset = Suc (pos_offset p), pos_line = Suc (pos_line p), pos_column = 1 \<rparr>
      else \<lparr> pos_offset = Suc (pos_offset p), pos_line = pos_line p, pos_column = Suc (pos_column p) \<rparr>)"

definition advance_over :: "scan_position \<Rightarrow> string \<Rightarrow> scan_position" where
  "advance_over p cs = foldl advance p cs"

definition span_at :: "scan_position \<Rightarrow> nat \<Rightarrow> source_span" where
  "span_at p n =
     \<lparr> byte_offset = pos_offset p, byte_length = n, line = pos_line p, column = pos_column p \<rparr>"

definition is_space :: "char \<Rightarrow> bool" where
  "is_space c = (c \<in> set [CHR '' '', CHR 0x09, CHR 0x0A, CHR 0x0B, CHR 0x0C, CHR 0x0D])"

definition is_digit :: "char \<Rightarrow> bool" where
  "is_digit c = (c \<in> set ''0123456789'')"

definition is_ident_start :: "char \<Rightarrow> bool" where
  "is_ident_start c =
     (c \<in> set ''abcdefghijklmnopqrstuvwxyzABCDEFGHIJKLMNOPQRSTUVWXYZ_'')"

definition is_ident_char :: "char \<Rightarrow> bool" where
  "is_ident_char c = (is_ident_start c \<or> is_digit c)"

definition keyword_or_identifier :: "string \<Rightarrow> token_kind" where
  "keyword_or_identifier w =
     (if w = ''scene'' then KwScene
      else if w = ''entity'' then KwEntity
      else if w = ''components'' then KwComponents
      else if w = ''constraint'' then KwConstraint
      else if w = ''motion'' then KwMotion
      else if w = ''timeline'' then KwTimeline
      else if w = ''event'' then KwEvent
      else if w = ''library_imports'' then KwLibraryImports
      else if w = ''kind'' then KwKind
      else Identifier w)"

definition punctuation :: "char \<Rightarrow> token_kind option" where
  "punctuation c =
     (if c = CHR ''{'' then Some LeftBrace
      else if c = CHR ''}'' then Some RightBrace
      else if c = CHR ''['' then Some LeftBracket
      else if c = CHR '']'' then Some RightBracket
      else if c = CHR '':'' then Some Colon
      else if c = CHR '','' then Some Comma
      else None)"

text \<open>
  The part of a number after its first character, by the grammar
  \<^verbatim>\<open>-?[0-9]+(\.[0-9]+)?([eE][+-]?[0-9]+)?\<close>: more digits, then a fraction if a dot and
  a digit follow, then an exponent if it is complete.
\<close>

definition fraction_part :: "string \<Rightarrow> string" where
  "fraction_part cs =
     (case cs of
        d # e # r \<Rightarrow> if d = CHR ''.'' \<and> is_digit e then d # takeWhile is_digit (e # r) else []
      | _ \<Rightarrow> [])"

definition exponent_part :: "string \<Rightarrow> string" where
  "exponent_part cs =
     (case cs of
        e # s # r \<Rightarrow>
          if e = CHR ''e'' \<or> e = CHR ''E'' then
            (if is_digit s then e # takeWhile is_digit (s # r)
             else if s = CHR ''+'' \<or> s = CHR ''-'' then
               (case r of
                  d # r' \<Rightarrow> if is_digit d then e # s # takeWhile is_digit r else []
                | [] \<Rightarrow> [])
             else [])
          else []
      | _ \<Rightarrow> [])"

definition number_tail :: "string \<Rightarrow> string" where
  "number_tail cs =
     (let ds = takeWhile is_digit cs;
          fr = fraction_part (drop (length ds) cs);
          ex = exponent_part (drop (length ds + length fr) cs)
      in ds @ fr @ ex)"

definition number_kind :: "string \<Rightarrow> token_kind" where
  "number_kind lexeme =
     (if CHR ''.'' \<in> set lexeme \<or> CHR ''e'' \<in> set lexeme \<or> CHR ''E'' \<in> set lexeme
        then Number lexeme else Integer lexeme)"

definition starts_number :: "char \<Rightarrow> string \<Rightarrow> bool" where
  "starts_number c cs =
     (is_digit c \<or> (c = CHR ''-'' \<and> (case cs of d # r \<Rightarrow> is_digit d | [] \<Rightarrow> False)))"

definition starts_comment :: "char \<Rightarrow> string \<Rightarrow> bool" where
  "starts_comment c cs = (c = CHR ''/'' \<and> (case cs of d # r \<Rightarrow> d = CHR ''/'' | [] \<Rightarrow> False))"

definition then_tokens :: "token \<Rightarrow> diagnostic + token list \<Rightarrow> diagnostic + token list" where
  "then_tokens t r = (case r of Inl d \<Rightarrow> Inl d | Inr ts \<Rightarrow> Inr (t # ts))"

text \<open>
  The lexer of section 4.2: it skips white space and comments, and stops at the first
  character that starts no token (E001) or at a string that is not closed (E002).
\<close>

function lex_from :: "scan_position \<Rightarrow> string \<Rightarrow> diagnostic + token list" where
  "lex_from p [] = Inr [(Eof, span_at p 0)]"
| "lex_from p (c # cs) =
     (if is_space c then lex_from (advance p c) cs
      else if starts_comment c cs then
        lex_from (advance_over p (c # takeWhile (\<lambda>x. x \<noteq> newline) cs)) (dropWhile (\<lambda>x. x \<noteq> newline) cs)
      else if is_ident_start c then
        then_tokens (keyword_or_identifier (c # takeWhile is_ident_char cs),
                     span_at p (Suc (length (takeWhile is_ident_char cs))))
          (lex_from (advance_over p (c # takeWhile is_ident_char cs)) (dropWhile is_ident_char cs))
      else if starts_number c cs then
        then_tokens (number_kind (c # number_tail cs), span_at p (Suc (length (number_tail cs))))
          (lex_from (advance_over p (c # number_tail cs)) (drop (length (number_tail cs)) cs))
      else if c = quote then
        (if quote \<in> set cs then
           then_tokens (StringLit (takeWhile (\<lambda>x. x \<noteq> quote) cs),
                        span_at p (length (takeWhile (\<lambda>x. x \<noteq> quote) cs) + 2))
             (lex_from (advance_over p (c # takeWhile (\<lambda>x. x \<noteq> quote) cs @ [quote]))
                  (tl (dropWhile (\<lambda>x. x \<noteq> quote) cs)))
         else Inl \<lparr> code = 2, message = ''unterminated string'', location = span_at p (Suc (length cs)) \<rparr>)
      else (case punctuation c of
              Some k \<Rightarrow> then_tokens (k, span_at p 1) (lex_from (advance p c) cs)
            | None \<Rightarrow> Inl \<lparr> code = 1, message = ''unexpected character'', location = span_at p 1 \<rparr>))"
  by pat_completeness auto
termination
  by (relation "measure (\<lambda>(p, s). length s)")
     (auto simp: length_dropWhile_le le_imp_less_Suc intro: le_less_trans [OF diff_le_self])

definition lexer :: "string \<Rightarrow> diagnostic + token list" where
  "lexer source = lex_from start_position source"

text \<open>The syntax tree of section 3; a number keeps the text of its literal.\<close>

datatype ast_value =
    AstNumber string
  | AstString string
  | AstIdentifier string
  | AstVector3 string string string

type_synonym ast_fields = "(string \<times> ast_value) list"

record ast_scene =
  scene_name :: string
  scene_version :: string
  scene_ir_version :: string
  scene_unit_system :: string

datatype ast_entity = AstEntity string string "(string \<times> ast_fields) list" source_span

datatype ast_constraint = AstConstraint string string ast_fields source_span

datatype ast_motion = AstMotion string string string ast_fields source_span

datatype ast_event = AstEvent string string string source_span

datatype ast_timeline = AstTimeline string "ast_event list" source_span

record ast_file =
  file_scene :: ast_scene
  file_library_imports :: "(string \<times> string) list"
  file_entities :: "ast_entity list"
  file_constraints :: "ast_constraint list"
  file_motions :: "ast_motion list"
  file_timelines :: "ast_timeline list"

text \<open>
  A parser takes the tokens left and gives a value with the tokens after it, or the
  one diagnostic of the parse: the parser stops at its first error.
\<close>

type_synonym 'a parser = "token list \<Rightarrow> diagnostic + ('a \<times> token list)"

definition here :: "token list \<Rightarrow> source_span" where
  "here ts = (case ts of (k, sp) # r \<Rightarrow> sp | [] \<Rightarrow> \<lparr> byte_offset = 0, byte_length = 0, line = 1, column = 1 \<rparr>)"

definition unexpected_token :: "token list \<Rightarrow> diagnostic" where
  "unexpected_token ts = \<lparr> code = 100, message = ''unexpected token'', location = here ts \<rparr>"

definition missing_section :: "string \<Rightarrow> token list \<Rightarrow> diagnostic" where
  "missing_section what ts =
     \<lparr> code = 101, message = ''missing required section: '' @ what, location = here ts \<rparr>"

definition malformed_vector :: "source_span \<Rightarrow> diagnostic" where
  "malformed_vector sp = \<lparr> code = 110, message = ''malformed vector'', location = sp \<rparr>"

definition and_then :: "(diagnostic + ('a \<times> token list)) \<Rightarrow> ('a \<Rightarrow> 'b parser) \<Rightarrow> diagnostic + ('b \<times> token list)" where
  "and_then r f = (case r of Inl d \<Rightarrow> Inl d | Inr (x, ts) \<Rightarrow> f x ts)"

definition expect :: "token_kind \<Rightarrow> unit parser" where
  "expect k ts =
     (case ts of
        (k', sp) # r \<Rightarrow> if k' = k then Inr ((), r) else Inl (unexpected_token ts)
      | [] \<Rightarrow> Inl (unexpected_token ts))"

definition parse_identifier :: "string parser" where
  "parse_identifier ts =
     (case ts of
        (Identifier x, sp) # r \<Rightarrow> Inr (x, r)
      | _ \<Rightarrow> Inl (unexpected_token ts))"

definition parse_string :: "string parser" where
  "parse_string ts =
     (case ts of
        (StringLit x, sp) # r \<Rightarrow> Inr (x, r)
      | _ \<Rightarrow> Inl (unexpected_token ts))"

definition parse_integer :: "string parser" where
  "parse_integer ts =
     (case ts of
        (Integer x, sp) # r \<Rightarrow> Inr (x, r)
      | _ \<Rightarrow> Inl (unexpected_token ts))"

definition number_lexeme :: "token_kind \<Rightarrow> string option" where
  "number_lexeme k = (case k of Number x \<Rightarrow> Some x | Integer x \<Rightarrow> Some x | _ \<Rightarrow> None)"

definition parse_number :: "string parser" where
  "parse_number ts =
     (case ts of
        [] \<Rightarrow> Inl (unexpected_token ts)
      | (k, sp) # r \<Rightarrow>
          (case number_lexeme k of Some x \<Rightarrow> Inr (x, r) | None \<Rightarrow> Inl (unexpected_token ts)))"

text \<open>
  \<open>many starts p\<close> runs \<open>p\<close> as long as the next token can start one. A parser that
  succeeds has consumed a token; the test on the lengths says so to the termination
  proof.
\<close>

function many :: "(token_kind \<Rightarrow> bool) \<Rightarrow> 'a parser \<Rightarrow> 'a list parser" where
  "many starts p ts =
     (case ts of
        [] \<Rightarrow> Inr ([], ts)
      | t # r \<Rightarrow>
          if starts (fst t) then
            (case p ts of
               Inl d \<Rightarrow> Inl d
             | Inr (x, ts') \<Rightarrow>
                 if length ts' < length ts
                   then and_then (many starts p ts') (\<lambda>xs ts''. Inr (x # xs, ts''))
                 else Inr ([x], ts'))
          else Inr ([], ts))"
  by pat_completeness auto
termination
  by (relation "measure (\<lambda>(starts, p, ts). length ts)") auto

text \<open>
  A value: a number, a string, an identifier, or \<^verbatim>\<open>[NUMBER, NUMBER, NUMBER]\<close>. After
  a left bracket anything else than three numbers, two commas and the right bracket is
  a malformed vector (E110).
\<close>

definition parse_vector :: "source_span \<Rightarrow> ast_value parser" where
  "parse_vector sp ts =
     (case map fst (take 6 ts) of
        [a, Comma, b, Comma, c, RightBracket] \<Rightarrow>
          (case (number_lexeme a, number_lexeme b, number_lexeme c) of
             (Some x, Some y, Some z) \<Rightarrow> Inr (AstVector3 x y z, drop 6 ts)
           | _ \<Rightarrow> Inl (malformed_vector sp))
      | _ \<Rightarrow> Inl (malformed_vector sp))"

definition parse_value :: "ast_value parser" where
  "parse_value ts =
     (case ts of
        (Number x, sp) # r \<Rightarrow> Inr (AstNumber x, r)
      | (Integer x, sp) # r \<Rightarrow> Inr (AstNumber x, r)
      | (StringLit x, sp) # r \<Rightarrow> Inr (AstString x, r)
      | (Identifier x, sp) # r \<Rightarrow> Inr (AstIdentifier x, r)
      | (LeftBracket, sp) # r \<Rightarrow> parse_vector sp r
      | _ \<Rightarrow> Inl (unexpected_token ts))"

definition is_identifier :: "token_kind \<Rightarrow> bool" where
  "is_identifier k = (case k of Identifier x \<Rightarrow> True | _ \<Rightarrow> False)"

text \<open>\<^verbatim>\<open>field := IDENT ":" value\<close>.\<close>

definition parse_field :: "(string \<times> ast_value) parser" where
  "parse_field ts =
     and_then (parse_identifier ts) (\<lambda>nm ts1.
     and_then (expect Colon ts1) (\<lambda>_ ts2.
     and_then (parse_value ts2) (\<lambda>v ts3. Inr ((nm, v), ts3))))"

definition parse_fields :: "ast_fields parser" where
  "parse_fields = many is_identifier parse_field"

text \<open>A field with a fixed name and a value of a fixed kind.\<close>

definition named :: "string \<Rightarrow> 'a parser \<Rightarrow> 'a parser" where
  "named nm p ts =
     and_then (expect (Identifier nm) ts) (\<lambda>_ ts1.
     and_then (expect Colon ts1) (\<lambda>_ ts2. p ts2))"

text \<open>
  \<^verbatim>\<open>scene { name: STRING version: INTEGER ir_version: STRING unit_system: STRING }\<close>,
  after the keyword.
\<close>

definition parse_scene :: "ast_scene parser" where
  "parse_scene ts =
     and_then (expect LeftBrace ts) (\<lambda>_ ts1.
     and_then (named ''name'' parse_string ts1) (\<lambda>n ts2.
     and_then (named ''version'' parse_integer ts2) (\<lambda>v ts3.
     and_then (named ''ir_version'' parse_string ts3) (\<lambda>i ts4.
     and_then (named ''unit_system'' parse_string ts4) (\<lambda>u ts5.
     and_then (expect RightBrace ts5) (\<lambda>_ ts6.
       Inr (\<lparr> scene_name = n, scene_version = v, scene_ir_version = i, scene_unit_system = u \<rparr>, ts6)))))))"

text \<open>\<^verbatim>\<open>library_imports { (IDENT ":" STRING)* }\<close>, after the keyword.\<close>

definition parse_import :: "(string \<times> string) parser" where
  "parse_import ts =
     and_then (parse_identifier ts) (\<lambda>alias ts1.
     and_then (expect Colon ts1) (\<lambda>_ ts2.
     and_then (parse_string ts2) (\<lambda>lib ts3. Inr ((alias, lib), ts3))))"

definition parse_imports :: "(string \<times> string) list parser" where
  "parse_imports ts =
     and_then (expect LeftBrace ts) (\<lambda>_ ts1.
     and_then (many is_identifier parse_import ts1) (\<lambda>ps ts2.
     and_then (expect RightBrace ts2) (\<lambda>_ ts3. Inr (ps, ts3))))"

text \<open>\<^verbatim>\<open>entity IDENT { kind: IDENT components { (IDENT { field* })* } }\<close>.\<close>

definition parse_component :: "(string \<times> ast_fields) parser" where
  "parse_component ts =
     and_then (parse_identifier ts) (\<lambda>nm ts1.
     and_then (expect LeftBrace ts1) (\<lambda>_ ts2.
     and_then (parse_fields ts2) (\<lambda>fs ts3.
     and_then (expect RightBrace ts3) (\<lambda>_ ts4. Inr ((nm, fs), ts4)))))"

definition parse_entity :: "ast_entity parser" where
  "parse_entity ts =
     and_then (expect KwEntity ts) (\<lambda>_ ts1.
     and_then (parse_identifier ts1) (\<lambda>ident ts2.
     and_then (expect LeftBrace ts2) (\<lambda>_ ts3.
     and_then (expect KwKind ts3) (\<lambda>_ ts4.
     and_then (expect Colon ts4) (\<lambda>_ ts5.
     and_then (parse_identifier ts5) (\<lambda>knd ts6.
     and_then (expect KwComponents ts6) (\<lambda>_ ts7.
     and_then (expect LeftBrace ts7) (\<lambda>_ ts8.
     and_then (many is_identifier parse_component ts8) (\<lambda>cs ts9.
     and_then (expect RightBrace ts9) (\<lambda>_ ts10.
     and_then (expect RightBrace ts10) (\<lambda>_ ts11.
       Inr (AstEntity ident knd cs (here ts), ts11))))))))))))"

text \<open>\<^verbatim>\<open>constraint IDENT { type: IDENT field* }\<close>: \<^verbatim>\<open>type\<close> comes first.\<close>

definition parse_constraint :: "ast_constraint parser" where
  "parse_constraint ts =
     and_then (expect KwConstraint ts) (\<lambda>_ ts1.
     and_then (parse_identifier ts1) (\<lambda>ident ts2.
     and_then (expect LeftBrace ts2) (\<lambda>_ ts3.
     and_then (named ''type'' parse_identifier ts3) (\<lambda>ty ts4.
     and_then (parse_fields ts4) (\<lambda>fs ts5.
     and_then (expect RightBrace ts5) (\<lambda>_ ts6.
       Inr (AstConstraint ident ty fs (here ts), ts6)))))))"

text \<open>
  \<^verbatim>\<open>motion IDENT { target: IDENT type: IDENT field* }\<close>, \<^verbatim>\<open>target\<close> and \<^verbatim>\<open>type\<close>
  in either order.
\<close>

definition parse_target_and_type :: "(string \<times> string) parser" where
  "parse_target_and_type ts =
     (case ts of
        (Identifier w, sp) # r \<Rightarrow>
          if w = ''type'' then
            and_then (named ''type'' parse_identifier ts) (\<lambda>ty ts1.
            and_then (named ''target'' parse_identifier ts1) (\<lambda>tg ts2. Inr ((tg, ty), ts2)))
          else
            and_then (named ''target'' parse_identifier ts) (\<lambda>tg ts1.
            and_then (named ''type'' parse_identifier ts1) (\<lambda>ty ts2. Inr ((tg, ty), ts2)))
      | _ \<Rightarrow> Inl (unexpected_token ts))"

definition parse_motion :: "ast_motion parser" where
  "parse_motion ts =
     and_then (expect KwMotion ts) (\<lambda>_ ts1.
     and_then (parse_identifier ts1) (\<lambda>ident ts2.
     and_then (expect LeftBrace ts2) (\<lambda>_ ts3.
     and_then (parse_target_and_type ts3) (\<lambda>tt ts4.
     and_then (parse_fields ts4) (\<lambda>fs ts5.
     and_then (expect RightBrace ts5) (\<lambda>_ ts6.
       Inr (AstMotion ident (fst tt) (snd tt) fs (here ts), ts6)))))))"

text \<open>\<^verbatim>\<open>timeline IDENT { (event { motion: IDENT start: NUMBER duration: NUMBER })* }\<close>.\<close>

definition parse_event :: "ast_event parser" where
  "parse_event ts =
     and_then (expect KwEvent ts) (\<lambda>_ ts1.
     and_then (expect LeftBrace ts1) (\<lambda>_ ts2.
     and_then (expect KwMotion ts2) (\<lambda>_ ts3.
     and_then (expect Colon ts3) (\<lambda>_ ts4.
     and_then (parse_identifier ts4) (\<lambda>m ts5.
     and_then (named ''start'' parse_number ts5) (\<lambda>s ts6.
     and_then (named ''duration'' parse_number ts6) (\<lambda>d ts7.
     and_then (expect RightBrace ts7) (\<lambda>_ ts8.
       Inr (AstEvent m s d (here ts), ts8)))))))))"

definition parse_timeline :: "ast_timeline parser" where
  "parse_timeline ts =
     and_then (expect KwTimeline ts) (\<lambda>_ ts1.
     and_then (parse_identifier ts1) (\<lambda>ident ts2.
     and_then (expect LeftBrace ts2) (\<lambda>_ ts3.
     and_then (many (\<lambda>k. k = KwEvent) parse_event ts3) (\<lambda>es ts4.
     and_then (expect RightBrace ts4) (\<lambda>_ ts5.
       Inr (AstTimeline ident es (here ts), ts5))))))"

text \<open>
  What follows the two mandatory sections:
  \<^verbatim>\<open>entity* constraint* motion* timeline* eof\<close>, in this order.
\<close>

definition parse_items :: "ast_scene \<Rightarrow> (string \<times> string) list \<Rightarrow> ast_file parser" where
  "parse_items sc imps ts =
     and_then (many (\<lambda>k. k = KwEntity) parse_entity ts) (\<lambda>es ts1.
     and_then (many (\<lambda>k. k = KwConstraint) parse_constraint ts1) (\<lambda>cs ts2.
     and_then (many (\<lambda>k. k = KwMotion) parse_motion ts2) (\<lambda>ms ts3.
     and_then (many (\<lambda>k. k = KwTimeline) parse_timeline ts3) (\<lambda>tls ts4.
     and_then (expect Eof ts4) (\<lambda>_ ts5.
       Inr (\<lparr> file_scene = sc, file_library_imports = imps, file_entities = es,
               file_constraints = cs, file_motions = ms, file_timelines = tls \<rparr>, ts5))))))"

text \<open>
  \<^verbatim>\<open>file := scene library_imports entity* constraint* motion* timeline* eof\<close>. A file
  that does not start with \<^verbatim>\<open>scene\<close>, or whose scene block is not followed by
  \<^verbatim>\<open>library_imports\<close>, misses a required section (E101); this is also the
  diagnostic of the empty source.
\<close>

definition after_scene :: "ast_scene \<Rightarrow> ast_file parser" where
  "after_scene sc ts =
     (case ts of
        (KwLibraryImports, sp) # r \<Rightarrow> and_then (parse_imports r) (\<lambda>imps ts1. parse_items sc imps ts1)
      | _ \<Rightarrow> Inl (missing_section ''library_imports'' ts))"

definition parse_file :: "token list \<Rightarrow> diagnostic + ast_file" where
  "parse_file ts =
     (case ts of
        (KwScene, sp) # r \<Rightarrow>
          (case and_then (parse_scene r) after_scene of
             Inl d \<Rightarrow> Inl d
           | Inr (f, rest) \<Rightarrow> Inr f)
      | _ \<Rightarrow> Inl (missing_section ''scene'' ts))"

text \<open>
  \<^verbatim>\<open>parse_only\<close> and \<^verbatim>\<open>compile\<close> of section 6. The pipeline is linear: a lexical
  error or a syntax error is the only diagnostic of the run, and the validators and the
  lowering (\<open>later\<close>) see a parsed file only.
\<close>

definition parse_only :: "string \<Rightarrow> diagnostic + ast_file" where
  "parse_only source = (case lexer source of Inl d \<Rightarrow> Inl d | Inr ts \<Rightarrow> parse_file ts)"

definition compile :: "(ast_file \<Rightarrow> diagnostic list + 'ir) \<Rightarrow> string \<Rightarrow> diagnostic list + 'ir" where
  "compile later source =
     (case parse_only source of
        Inl d \<Rightarrow> Inl [d]
      | Inr f \<Rightarrow> later f)"

text \<open>
  The order of the sections, read off the kinds of the tokens: the first token is
  \<^verbatim>\<open>scene\<close>, and \<^verbatim>\<open>library_imports\<close> comes after it before any other keyword that
  opens a section or an item.
\<close>

definition opens_item :: "token_kind \<Rightarrow> bool" where
  "opens_item k = (k = KwScene \<or> k = KwEntity \<or> k = KwConstraint \<or> k = KwMotion \<or> k = KwTimeline)"

fun imports_follow :: "token_kind list \<Rightarrow> bool" where
  "imports_follow [] = False"
| "imports_follow (k # ks) =
     (if k = KwLibraryImports then True
      else if opens_item k then False
      else imports_follow ks)"

definition sections_in_order :: "token_kind list \<Rightarrow> bool" where
  "sections_in_order ks = (case ks of [] \<Rightarrow> False | k # r \<Rightarrow> k = KwScene \<and> imports_follow r)"

text \<open>
  The two fixtures of \<^verbatim>\<open>src/frontend/js/sample-dsl.js\<close>, line by line.
\<close>

fun lines_text :: "string list \<Rightarrow> string" where
  "lines_text [] = []"
| "lines_text [l] = l"
| "lines_text (l # m # r) = l @ newline # lines_text (m # r)"

definition SAMPLE_DSL :: string where
  \<open>SAMPLE_DSL = lines_text
     [''scene {'',
      ''  name: "Simple Visualization"'',
      ''  version: 1'',
      ''  ir_version: "0.1.0"'',
      ''  unit_system: "SI"'',
      ''}'',
      '''',
      ''entity cube1 {'',
      ''  kind: solid'',
      ''  components {'',
      ''    transform {'',
      ''      position: [0, 0, 0]'',
      ''      rotation: [0, 0, 0]'',
      ''      scale: [2, 2, 2]'',
      ''    }'',
      ''    geometry {'',
      ''      primitive: cube'',
      ''    }'',
      ''  }'',
      ''}'',
      '''',
      ''entity sphere1 {'',
      ''  kind: solid'',
      ''  components {'',
      ''    transform {'',
      ''      position: [4, 0, 0]'',
      ''      rotation: [0, 0, 0]'',
      ''      scale: [1.5, 1.5, 1.5]'',
      ''    }'',
      ''    geometry {'',
      ''      primitive: sphere'',
      ''    }'',
      ''  }'',
      ''}'',
      '''',
      ''entity cylinder1 {'',
      ''  kind: solid'',
      ''  components {'',
      ''    transform {'',
      ''      position: [-3, 0, 0]'',
      ''      rotation: [0, 0, 0]'',
      ''      scale: [1, 2, 1]'',
      ''    }'',
      ''    geometry {'',
      ''      primitive: cylinder'',
      ''    }'',
      ''  }'',
      ''}'']\<close>

definition SAMPLE_DSL_SIMPLE :: string where
  \<open>SAMPLE_DSL_SIMPLE = lines_text
     [''entity box {'',
      ''  kind: solid'',
      ''  components {'',
      ''    transform {'',
      ''      position: [0, 0, 0]'',
      ''      rotation: [0, 0, 0]'',
      ''      scale: [1, 1, 1]'',
      ''    }'',
      ''    geometry {'',
      ''      primitive: cube'',
      ''    }'',
      ''  }'',
      ''}'']\<close>

text \<open>The smallest source the grammar accepts (the \<open>min\<close> of the scenarios).\<close>

definition minimal_source :: string where
  \<open>minimal_source = lines_text
     [''scene { name: "T" version: 1 ir_version: "0.1.0" unit_system: "SI" }'',
      ''library_imports { math: "core_mechanics" }'']\<close>

section \<open>Properties of the viewer\<close>

subsection \<open>Tagged values\<close>

lemma entity_primitive_Identifier:
  "primitiveObj entity = JObj [(''Identifier'', JStr p)] \<Longrightarrow> p \<noteq> [] \<Longrightarrow> entity_primitive entity = JStr p"
  by (simp add: entity_primitive_def js_or_def js_opt_def)

lemma entity_primitive_String:
  "primitiveObj entity = JObj [(''String'', JStr p)] \<Longrightarrow> entity_primitive entity = JObj [(''String'', JStr p)]"
  by (simp add: entity_primitive_def js_or_def js_opt_def)

lemma entity_primitive_bare:
  "primitiveObj entity = JStr p \<Longrightarrow> p \<noteq> [] \<Longrightarrow> entity_primitive entity = JStr p"
  by (simp add: entity_primitive_def js_or_def js_opt_def)

lemma make_geometry_object: "make_geometry (JObj kvs) sc = BoxGeometry (JNum 1) (JNum 1) (JNum 1)"
  by (simp add: make_geometry_def)

lemma primitiveObj_sphere_entity: "primitiveObj (sphere_entity prim) = prim"
  by (simp add: primitiveObj_def sphere_entity_def js_or_def Let_def)

lemma primitiveObj_not_nullish: "primitiveObj entity = JObj kvs \<Longrightarrow> \<not> nullish entity"
  by (cases entity) (auto simp: primitiveObj_def js_or_def Let_def)

text \<open>
  When nothing raises, \<^verbatim>\<open>createEntityMesh\<close> adds the mesh \<open>entity_mesh\<close> describes.
\<close>

lemma createEntityMesh_adds:
  assumes "\<not> nullish entity" and "convertible nm" and "mesh_convertible (entity_mesh nm entity)"
  shows "createEntityMesh nm entity r = Returned (r\<lparr> objects := objects r @ [entity_mesh nm entity] \<rparr>)"
  using assms by (simp add: createEntityMesh_def log_creation_error_def Let_def)

text \<open>
  Claim C5. The renderer unwraps IR values by their single-key tag.
  \<^verbatim>\<open>extractVector3\<close> applied to \<^verbatim>\<open>{"Vector3": v}\<close> returns \<open>v\<close> itself: for every
  array \<open>v\<close>, which is what the tag carries in the IR, and more generally for every
  truthy \<open>v\<close>. \<^verbatim>\<open>createEntityMesh\<close> reads the primitive from the \<^verbatim>\<open>Identifier\<close> tag:
  when the primitive property of the entity is \<^verbatim>\<open>{"Identifier": p}\<close>, the primitive of
  line 268 is the string \<open>p\<close>, and the call adds one mesh whose geometry is the one
  the \<^verbatim>\<open>switch\<close> makes for \<open>p\<close> (a sphere for \<^verbatim>\<open>sphere\<close>); whereas for a string
  value of the IR, \<^verbatim>\<open>{"String": p}\<close>, the primitive is that object, never a name, and
  the call adds one mesh with the unit box of the \<^verbatim>\<open>default\<close> case. The call is the
  one of the source, with its \<^verbatim>\<open>try\<close> and \<^verbatim>\<open>catch\<close>: the mesh is added and the call
  returns when the name converts to a string and the values handed to the library
  convert to numbers. (A bare JSON string, which is no value of the IR, is the second
  operand of line 268 and is taken for the name as it is: \<open>entity_primitive_bare\<close>.)
\<close>

theorem tagged_values_unwrapped:
  "extractVector3 (JObj [(''Vector3'', JArr xs)]) = JArr xs
   \<and> (truthy v \<longrightarrow> extractVector3 (JObj [(''Vector3'', v)]) = v)
   \<and> (primitiveObj entity = JObj [(''Identifier'', JStr p)] \<and> p \<noteq> [] \<longrightarrow>
        entity_primitive entity = JStr p)
   \<and> (primitiveObj entity = JObj [(''String'', JStr p)] \<longrightarrow>
        entity_primitive entity = JObj [(''String'', JStr p)])
   \<and> (primitiveObj entity = JObj [(''Identifier'', JStr p)] \<and> p \<noteq> []
        \<and> convertible nm \<and> mesh_convertible (entity_mesh nm entity) \<longrightarrow>
        (\<exists>m. createEntityMesh nm entity r = Returned (r\<lparr> objects := objects r @ [m] \<rparr>)
            \<and> geom m = make_geometry (JStr p) (entity_scale entity)))
   \<and> (primitiveObj entity = JObj [(''String'', JStr p)]
        \<and> convertible nm \<and> mesh_convertible (entity_mesh nm entity) \<longrightarrow>
        (\<exists>m. createEntityMesh nm entity r = Returned (r\<lparr> objects := objects r @ [m] \<rparr>)
            \<and> geom m = BoxGeometry (JNum 1) (JNum 1) (JNum 1)))
   \<and> make_geometry (JStr ''sphere'') sc = SphereGeometry (js_index sc 0)"
proof -
  have a: "extractVector3 (JObj [(''Vector3'', JArr xs)]) = JArr xs"
    by (simp add: extractVector3_def)
  have b: "truthy v \<longrightarrow> extractVector3 (JObj [(''Vector3'', v)]) = v"
    by (simp add: extractVector3_def)
  have c: "primitiveObj entity = JObj [(''Identifier'', JStr p)] \<and> p \<noteq> []
        \<and> convertible nm \<and> mesh_convertible (entity_mesh nm entity) \<longrightarrow>
        (\<exists>m. createEntityMesh nm entity r = Returned (r\<lparr> objects := objects r @ [m] \<rparr>)
            \<and> geom m = make_geometry (JStr p) (entity_scale entity))"
  proof
    assume h: "primitiveObj entity = JObj [(''Identifier'', JStr p)] \<and> p \<noteq> []
        \<and> convertible nm \<and> mesh_convertible (entity_mesh nm entity)"
    then have "\<not> nullish entity" by (blast dest: primitiveObj_not_nullish)
    with h have "createEntityMesh nm entity r =
        Returned (r\<lparr> objects := objects r @ [entity_mesh nm entity] \<rparr>)"
      by (simp add: createEntityMesh_adds)
    moreover from h have "geom (entity_mesh nm entity) = make_geometry (JStr p) (entity_scale entity)"
      by (simp add: entity_primitive_Identifier entity_mesh_def Let_def)
    ultimately show "\<exists>m. createEntityMesh nm entity r = Returned (r\<lparr> objects := objects r @ [m] \<rparr>)
            \<and> geom m = make_geometry (JStr p) (entity_scale entity)"
      by blast
  qed
  have d: "primitiveObj entity = JObj [(''String'', JStr p)]
        \<and> convertible nm \<and> mesh_convertible (entity_mesh nm entity) \<longrightarrow>
        (\<exists>m. createEntityMesh nm entity r = Returned (r\<lparr> objects := objects r @ [m] \<rparr>)
            \<and> geom m = BoxGeometry (JNum 1) (JNum 1) (JNum 1))"
  proof
    assume h: "primitiveObj entity = JObj [(''String'', JStr p)]
        \<and> convertible nm \<and> mesh_convertible (entity_mesh nm entity)"
    then have "\<not> nullish entity" by (blast dest: primitiveObj_not_nullish)
    with h have "createEntityMesh nm entity r =
        Returned (r\<lparr> objects := objects r @ [entity_mesh nm entity] \<rparr>)"
      by (simp add: createEntityMesh_adds)
    moreover from h have "geom (entity_mesh nm entity) = BoxGeometry (JNum 1) (JNum 1) (JNum 1)"
      by (simp add: entity_primitive_String entity_mesh_def Let_def make_geometry_object)
    ultimately show "\<exists>m. createEntityMesh nm entity r = Returned (r\<lparr> objects := objects r @ [m] \<rparr>)
            \<and> geom m = BoxGeometry (JNum 1) (JNum 1) (JNum 1)"
      by blast
  qed
  have e: "make_geometry (JStr ''sphere'') sc = SphereGeometry (js_index sc 0)"
    by (simp add: make_geometry_def)
  have f: "primitiveObj entity = JObj [(''Identifier'', JStr p)] \<and> p \<noteq> [] \<longrightarrow>
        entity_primitive entity = JStr p"
    by (simp add: entity_primitive_Identifier)
  have g: "primitiveObj entity = JObj [(''String'', JStr p)] \<longrightarrow>
        entity_primitive entity = JObj [(''String'', JStr p)]"
    by (simp add: entity_primitive_String)
  from a b c d e f g show ?thesis by blast
qed

lemma entity_mesh_sphere_Identifier:
  "entity_mesh (JStr ''ball'') (sphere_entity (JObj [(''Identifier'', JStr ''sphere'')])) =
     \<lparr> name = JStr ''ball'', geom = SphereGeometry (JNum 1),
       position = (JNum 0, JNum 0, JNum 0), rotation = (JNum 0, JNum 0, JNum 0),
       userData = sphere_entity (JObj [(''Identifier'', JStr ''sphere'')]), quaternion = [] \<rparr>"
  by (simp add: entity_mesh_def entity_position_def entity_rotation_def entity_scale_def
      transformProps_def extractVector3_def entity_primitive_def primitiveObj_def
      make_geometry_def js_or_def js_opt_def sphere_entity_def Let_def)

lemma entity_mesh_sphere_String:
  "entity_mesh (JStr ''ball'') (sphere_entity (JObj [(''String'', JStr ''sphere'')])) =
     \<lparr> name = JStr ''ball'', geom = BoxGeometry (JNum 1) (JNum 1) (JNum 1),
       position = (JNum 0, JNum 0, JNum 0), rotation = (JNum 0, JNum 0, JNum 0),
       userData = sphere_entity (JObj [(''String'', JStr ''sphere'')]), quaternion = [] \<rparr>"
  by (simp add: entity_mesh_def entity_position_def entity_rotation_def entity_scale_def
      transformProps_def extractVector3_def entity_primitive_def primitiveObj_def
      make_geometry_def js_or_def js_opt_def sphere_entity_def Let_def)

theorem tagged_values_unwrapped_witness:
  "extractVector3 (JObj [(''Vector3'', JArr [JNum 0, JNum 1, JNum 0])]) = JArr [JNum 0, JNum 1, JNum 0]
   \<and> truthy (JArr [JNum 0, JNum 1, JNum 0])
   \<and> primitiveObj (sphere_entity (JObj [(''Identifier'', JStr ''sphere'')])) = JObj [(''Identifier'', JStr ''sphere'')]
   \<and> mesh_convertible (entity_mesh (JStr ''ball'') (sphere_entity (JObj [(''Identifier'', JStr ''sphere'')])))
   \<and> (\<exists>m. createEntityMesh (JStr ''ball'') (sphere_entity (JObj [(''Identifier'', JStr ''sphere'')])) initial_renderer =
            Returned (initial_renderer\<lparr> objects := [m] \<rparr>)
          \<and> geom m = SphereGeometry (JNum 1))
   \<and> (\<exists>m. createEntityMesh (JStr ''ball'') (sphere_entity (JObj [(''String'', JStr ''sphere'')])) initial_renderer =
            Returned (initial_renderer\<lparr> objects := [m] \<rparr>)
          \<and> geom m = BoxGeometry (JNum 1) (JNum 1) (JNum 1))"
proof -
  let ?i = "sphere_entity (JObj [(''Identifier'', JStr ''sphere'')])"
  let ?s = "sphere_entity (JObj [(''String'', JStr ''sphere'')])"
  have sc: "entity_scale (sphere_entity prim) = JArr [JNum 1, JNum 1, JNum 1]" for prim
    by (simp add: entity_scale_def transformProps_def sphere_entity_def js_or_def extractVector3_def Let_def)
  have g: "make_geometry (JStr ''sphere'') (JArr [JNum 1, JNum 1, JNum 1]) = SphereGeometry (JNum 1)"
    by (simp add: make_geometry_def)
  have ci: "mesh_convertible (entity_mesh (JStr ''ball'') ?i)"
    by (simp add: entity_mesh_sphere_Identifier mesh_convertible_def)
  have cs: "mesh_convertible (entity_mesh (JStr ''ball'') ?s)"
    by (simp add: entity_mesh_sphere_String mesh_convertible_def)
  have o: "objects initial_renderer = []"
    by (simp add: initial_renderer_def)
  from tagged_values_unwrapped [of "[JNum 0, JNum 1, JNum 0]" "JArr [JNum 0, JNum 1, JNum 0]"
        ?i "''sphere''" "JStr ''ball''" initial_renderer "JArr []"] ci
  have first: "\<exists>m. createEntityMesh (JStr ''ball'') ?i initial_renderer =
            Returned (initial_renderer\<lparr> objects := [m] \<rparr>) \<and> geom m = SphereGeometry (JNum 1)"
    by (simp add: primitiveObj_sphere_entity sc g o)
  from tagged_values_unwrapped [of "[]" "JNull" ?s "''sphere''" "JStr ''ball''" initial_renderer "JArr []"] cs
  have second: "\<exists>m. createEntityMesh (JStr ''ball'') ?s initial_renderer =
            Returned (initial_renderer\<lparr> objects := [m] \<rparr>) \<and> geom m = BoxGeometry (JNum 1) (JNum 1) (JNum 1)"
    by (simp add: primitiveObj_sphere_entity o)
  have "extractVector3 (JObj [(''Vector3'', JArr [JNum 0, JNum 1, JNum 0])]) = JArr [JNum 0, JNum 1, JNum 0]"
    using tagged_values_unwrapped [of "[JNum 0, JNum 1, JNum 0]" "JArr [JNum 0, JNum 1, JNum 0]"
        ?i "''sphere''" "JStr ''ball''" initial_renderer "JArr []"] by blast
  with first second ci show ?thesis
    by (simp add: primitiveObj_sphere_entity)
qed



subsection \<open>Meshes of entities with missing parts\<close>

lemma extractVector3_no_vector: "no_vector v \<Longrightarrow> extractVector3 v = JNull"
  by (cases v) (auto simp: extractVector3_def no_vector_def)

lemma extractVector3_JNull_iff: "extractVector3 v = JNull \<longleftrightarrow> no_vector v"
  by (cases v) (auto simp: extractVector3_def no_vector_def)

lemma extractVector3_bare: "extractVector3 (JArr xs) = JArr xs"
  by (simp add: extractVector3_def)

lemma absent_transform_props:
  "\<not> truthy (js_get (js_or (js_get entity ''components'') (JObj [])) ''transform'') \<Longrightarrow>
   transformProps entity = JObj []"
  by (simp add: transformProps_def js_or_def Let_def)

lemma absent_geometry_primitive:
  "\<not> truthy (js_get (js_or (js_get entity ''components'') (JObj [])) ''geometry'') \<Longrightarrow>
   entity_primitive entity = JStr ''cube''"
  by (simp add: entity_primitive_def primitiveObj_def js_or_def js_opt_def Let_def)

lemma make_geometry_unknown:
  "\<not> known_primitive p \<Longrightarrow> make_geometry p sc = BoxGeometry (JNum 1) (JNum 1) (JNum 1)"
  unfolding known_primitive_def make_geometry_def by presburger

text \<open>When the mesh is not added: a nullish entity, or a value the library cannot compute with.\<close>

lemma createEntityMesh_not_added:
  assumes "nullish entity \<or> \<not> mesh_convertible (entity_mesh nm entity)"
  shows "createEntityMesh nm entity r = (if convertible nm then Returned r else Raised TypeError r)"
  using assms by (auto simp: createEntityMesh_def log_creation_error_def)

lemma created_mesh_defaults:
  assumes "\<not> nullish entity" and "convertible nm" and "mesh_convertible (entity_mesh nm entity)"
  shows "\<exists>m. createEntityMesh nm entity r = Returned (r\<lparr> objects := objects r @ [m] \<rparr>)
      \<and> name m = nm \<and> userData m = entity
      \<and> (no_vector (js_get (transformProps entity) ''position'') \<longrightarrow>
           position m = (JNum 0, JNum 0, JNum 0))
      \<and> (no_vector (js_get (transformProps entity) ''rotation'') \<longrightarrow>
           rotation m = (JNum 0, JNum 0, JNum 0))
      \<and> (no_vector (js_get (transformProps entity) ''scale'') \<longrightarrow>
           entity_scale entity = JArr [JNum 1, JNum 1, JNum 1])
      \<and> (\<forall>xs. js_get (transformProps entity) ''position'' = JArr xs \<longrightarrow>
           position m = components3 (JArr xs))
      \<and> (\<forall>xs. js_get (transformProps entity) ''rotation'' = JArr xs \<longrightarrow>
           rotation m = components3 (JArr xs))
      \<and> (\<forall>xs. js_get (transformProps entity) ''scale'' = JArr xs \<longrightarrow>
           entity_scale entity = JArr xs)
      \<and> (\<not> truthy (js_get (js_or (js_get entity ''components'') (JObj [])) ''transform'') \<longrightarrow>
           position m = (JNum 0, JNum 0, JNum 0) \<and> rotation m = (JNum 0, JNum 0, JNum 0)
           \<and> entity_scale entity = JArr [JNum 1, JNum 1, JNum 1])
      \<and> (\<not> truthy (js_get (js_or (js_get entity ''components'') (JObj [])) ''geometry'') \<longrightarrow>
           geom m = BoxGeometry (js_index (entity_scale entity) 0) (js_index (entity_scale entity) 1)
                                (js_index (entity_scale entity) 2))
      \<and> (\<not> known_primitive (entity_primitive entity) \<longrightarrow>
           geom m = BoxGeometry (JNum 1) (JNum 1) (JNum 1))"
proof -
  let ?m = "entity_mesh nm entity"
  from assms have created: "createEntityMesh nm entity r = Returned (r\<lparr> objects := objects r @ [?m] \<rparr>)"
    by (rule createEntityMesh_adds)
  have ids: "name ?m = nm \<and> userData ?m = entity"
    by (simp add: entity_mesh_def Let_def)
  have pos: "no_vector (js_get (transformProps entity) ''position'') \<longrightarrow>
           position ?m = (JNum 0, JNum 0, JNum 0)"
    by (simp add: entity_mesh_def entity_position_def extractVector3_no_vector js_or_def Let_def)
  have rot: "no_vector (js_get (transformProps entity) ''rotation'') \<longrightarrow>
           rotation ?m = (JNum 0, JNum 0, JNum 0)"
    by (simp add: entity_mesh_def entity_rotation_def extractVector3_no_vector js_or_def Let_def)
  have scl: "no_vector (js_get (transformProps entity) ''scale'') \<longrightarrow>
           entity_scale entity = JArr [JNum 1, JNum 1, JNum 1]"
    by (simp add: entity_scale_def extractVector3_no_vector js_or_def)
  have bpos: "\<forall>xs. js_get (transformProps entity) ''position'' = JArr xs \<longrightarrow>
           position ?m = components3 (JArr xs)"
    by (simp add: entity_mesh_def entity_position_def extractVector3_bare js_or_def components3_def Let_def)
  have brot: "\<forall>xs. js_get (transformProps entity) ''rotation'' = JArr xs \<longrightarrow>
           rotation ?m = components3 (JArr xs)"
    by (simp add: entity_mesh_def entity_rotation_def extractVector3_bare js_or_def components3_def Let_def)
  have bscl: "\<forall>xs. js_get (transformProps entity) ''scale'' = JArr xs \<longrightarrow>
           entity_scale entity = JArr xs"
    by (simp add: entity_scale_def extractVector3_bare js_or_def)
  have absent: "\<not> truthy (js_get (js_or (js_get entity ''components'') (JObj [])) ''transform'') \<longrightarrow>
           position ?m = (JNum 0, JNum 0, JNum 0) \<and> rotation ?m = (JNum 0, JNum 0, JNum 0)
           \<and> entity_scale entity = JArr [JNum 1, JNum 1, JNum 1]"
  proof
    assume "\<not> truthy (js_get (js_or (js_get entity ''components'') (JObj [])) ''transform'')"
    then have "transformProps entity = JObj []" by (rule absent_transform_props)
    then show "position ?m = (JNum 0, JNum 0, JNum 0) \<and> rotation ?m = (JNum 0, JNum 0, JNum 0)
           \<and> entity_scale entity = JArr [JNum 1, JNum 1, JNum 1]"
      by (simp add: entity_mesh_def entity_position_def entity_rotation_def entity_scale_def
          extractVector3_def js_or_def Let_def)
  qed
  have nogeom: "\<not> truthy (js_get (js_or (js_get entity ''components'') (JObj [])) ''geometry'') \<longrightarrow>
           geom ?m = BoxGeometry (js_index (entity_scale entity) 0) (js_index (entity_scale entity) 1)
                                (js_index (entity_scale entity) 2)"
    by (simp add: absent_geometry_primitive entity_mesh_def make_geometry_def Let_def)
  have unknown: "\<not> known_primitive (entity_primitive entity) \<longrightarrow>
           geom ?m = BoxGeometry (JNum 1) (JNum 1) (JNum 1)"
    by (simp add: make_geometry_unknown entity_mesh_def Let_def)
  from created ids pos rot scl bpos brot bscl absent nogeom unknown show ?thesis by blast
  qed

lemma createEntityMesh_name_raises:
  assumes "\<not> nullish entity" and "mesh_convertible (entity_mesh nm entity)" and "\<not> convertible nm"
  shows "createEntityMesh nm entity r = Raised TypeError (r\<lparr> objects := objects r @ [entity_mesh nm entity] \<rparr>)"
  using assms by (simp add: createEntityMesh_def log_creation_error_def Let_def)

text \<open>
  Claim C10, amended. \<^verbatim>\<open>createEntityMesh\<close> does not create a mesh for every entity,
  and it can raise. It adds exactly one mesh, named and tagged with the entity, and
  returns, when the entity is not \<^verbatim>\<open>null\<close> or \<^verbatim>\<open>undefined\<close>, the geometry
  arguments and the angles of the rotation convert to numbers (\<open>mesh_convertible\<close>)
  and the name converts to a string. Then a vector of the transform that is falsy, or
  is not an array and has no truthy \<^verbatim>\<open>Vector3\<close> or \<^verbatim>\<open>Array\<close> member
  (\<open>no_vector\<close>), takes its default: position and rotation \<open>[0,0,0]\<close>, scale
  \<open>[1,1,1]\<close>, and so all three for an absent transform component; a vector written
  as a bare array, which carries no tag, is used as it is given; an absent geometry
  component gives a box with the dimensions of the scale, and a primitive outside the
  five known names a unit box. For an entity that is \<^verbatim>\<open>null\<close> or \<^verbatim>\<open>undefined\<close>, or
  whose geometry arguments or angles do not convert, no mesh is added: the error is
  caught and logged, and the call returns, unless the name does not convert to a
  string, in which case the \<^verbatim>\<open>catch\<close> itself raises \<^verbatim>\<open>TypeError\<close>. When only the
  name does not convert, the mesh is added and the call raises \<^verbatim>\<open>TypeError\<close>.
\<close>

theorem createEntityMesh_defaults:
  "(\<not> nullish entity \<and> convertible nm \<and> mesh_convertible (entity_mesh nm entity) \<longrightarrow>
     (\<exists>m. createEntityMesh nm entity r = Returned (r\<lparr> objects := objects r @ [m] \<rparr>)
      \<and> name m = nm \<and> userData m = entity
      \<and> (no_vector (js_get (transformProps entity) ''position'') \<longrightarrow>
           position m = (JNum 0, JNum 0, JNum 0))
      \<and> (no_vector (js_get (transformProps entity) ''rotation'') \<longrightarrow>
           rotation m = (JNum 0, JNum 0, JNum 0))
      \<and> (no_vector (js_get (transformProps entity) ''scale'') \<longrightarrow>
           entity_scale entity = JArr [JNum 1, JNum 1, JNum 1])
      \<and> (\<forall>xs. js_get (transformProps entity) ''position'' = JArr xs \<longrightarrow>
           position m = components3 (JArr xs))
      \<and> (\<forall>xs. js_get (transformProps entity) ''rotation'' = JArr xs \<longrightarrow>
           rotation m = components3 (JArr xs))
      \<and> (\<forall>xs. js_get (transformProps entity) ''scale'' = JArr xs \<longrightarrow>
           entity_scale entity = JArr xs)
      \<and> (\<not> truthy (js_get (js_or (js_get entity ''components'') (JObj [])) ''transform'') \<longrightarrow>
           position m = (JNum 0, JNum 0, JNum 0) \<and> rotation m = (JNum 0, JNum 0, JNum 0)
           \<and> entity_scale entity = JArr [JNum 1, JNum 1, JNum 1])
      \<and> (\<not> truthy (js_get (js_or (js_get entity ''components'') (JObj [])) ''geometry'') \<longrightarrow>
           geom m = BoxGeometry (js_index (entity_scale entity) 0) (js_index (entity_scale entity) 1)
                                (js_index (entity_scale entity) 2))
      \<and> (\<not> known_primitive (entity_primitive entity) \<longrightarrow>
           geom m = BoxGeometry (JNum 1) (JNum 1) (JNum 1))))
   \<and> (nullish entity \<or> \<not> mesh_convertible (entity_mesh nm entity) \<longrightarrow>
        createEntityMesh nm entity r = (if convertible nm then Returned r else Raised TypeError r))
   \<and> (\<not> nullish entity \<and> mesh_convertible (entity_mesh nm entity) \<and> \<not> convertible nm \<longrightarrow>
        createEntityMesh nm entity r =
          Raised TypeError (r\<lparr> objects := objects r @ [entity_mesh nm entity] \<rparr>))"
proof -
  have added: "\<not> nullish entity \<and> convertible nm \<and> mesh_convertible (entity_mesh nm entity) \<longrightarrow>
     (\<exists>m. createEntityMesh nm entity r = Returned (r\<lparr> objects := objects r @ [m] \<rparr>)
      \<and> name m = nm \<and> userData m = entity
      \<and> (no_vector (js_get (transformProps entity) ''position'') \<longrightarrow>
           position m = (JNum 0, JNum 0, JNum 0))
      \<and> (no_vector (js_get (transformProps entity) ''rotation'') \<longrightarrow>
           rotation m = (JNum 0, JNum 0, JNum 0))
      \<and> (no_vector (js_get (transformProps entity) ''scale'') \<longrightarrow>
           entity_scale entity = JArr [JNum 1, JNum 1, JNum 1])
      \<and> (\<forall>xs. js_get (transformProps entity) ''position'' = JArr xs \<longrightarrow>
           position m = components3 (JArr xs))
      \<and> (\<forall>xs. js_get (transformProps entity) ''rotation'' = JArr xs \<longrightarrow>
           rotation m = components3 (JArr xs))
      \<and> (\<forall>xs. js_get (transformProps entity) ''scale'' = JArr xs \<longrightarrow>
           entity_scale entity = JArr xs)
      \<and> (\<not> truthy (js_get (js_or (js_get entity ''components'') (JObj [])) ''transform'') \<longrightarrow>
           position m = (JNum 0, JNum 0, JNum 0) \<and> rotation m = (JNum 0, JNum 0, JNum 0)
           \<and> entity_scale entity = JArr [JNum 1, JNum 1, JNum 1])
      \<and> (\<not> truthy (js_get (js_or (js_get entity ''components'') (JObj [])) ''geometry'') \<longrightarrow>
           geom m = BoxGeometry (js_index (entity_scale entity) 0) (js_index (entity_scale entity) 1)
                                (js_index (entity_scale entity) 2))
      \<and> (\<not> known_primitive (entity_primitive entity) \<longrightarrow>
           geom m = BoxGeometry (JNum 1) (JNum 1) (JNum 1)))"
    using created_mesh_defaults [of entity nm r] by blast
  have not_added: "nullish entity \<or> \<not> mesh_convertible (entity_mesh nm entity) \<longrightarrow>
        createEntityMesh nm entity r = (if convertible nm then Returned r else Raised TypeError r)"
    by (simp add: createEntityMesh_not_added)
  have raises: "\<not> nullish entity \<and> mesh_convertible (entity_mesh nm entity) \<and> \<not> convertible nm \<longrightarrow>
        createEntityMesh nm entity r =
          Raised TypeError (r\<lparr> objects := objects r @ [entity_mesh nm entity] \<rparr>)"
    by (simp add: createEntityMesh_name_raises)
  from added not_added raises show ?thesis by blast
qed

lemma entity_mesh_bare_entity:
  "entity_mesh (JStr ''e'') bare_entity =
     \<lparr> name = JStr ''e'', geom = BoxGeometry (JNum 1) (JNum 1) (JNum 1),
       position = (JNum 1, JNum 2, JNum 3), rotation = (JNum 0, JNum 0, JNum 0),
       userData = bare_entity, quaternion = [] \<rparr>"
  by (simp add: entity_mesh_def entity_position_def entity_rotation_def entity_scale_def
      transformProps_def extractVector3_def entity_primitive_def primitiveObj_def
      make_geometry_def js_or_def js_opt_def Let_def bare_entity_def)

text \<open>
  Claim C10, as stated, fails: a position written as a bare array carries no tag, and
  the mesh is placed at that array, not at the origin.
\<close>

theorem createEntityMesh_bare_array_counterexample:
  "\<exists>r'. createEntityMesh (JStr ''e'') bare_entity initial_renderer = Returned r'
     \<and> map position (objects r') = [(JNum 1, JNum 2, JNum 3)]
     \<and> map position (objects r') \<noteq> [(JNum 0, JNum 0, JNum 0)]"
proof -
  have "\<not> nullish bare_entity" by (simp add: bare_entity_def)
  moreover have "mesh_convertible (entity_mesh (JStr ''e'') bare_entity)"
    by (simp add: entity_mesh_bare_entity mesh_convertible_def)
  ultimately have "createEntityMesh (JStr ''e'') bare_entity initial_renderer =
      Returned (initial_renderer\<lparr> objects := objects initial_renderer @ [entity_mesh (JStr ''e'') bare_entity] \<rparr>)"
    by (simp add: createEntityMesh_adds)
  then show ?thesis
    by (simp add: entity_mesh_bare_entity initial_renderer_def)
qed

theorem createEntityMesh_defaults_witness:
  "\<not> nullish (JObj [(''id'', JStr ''e'')]) \<and> convertible (JStr ''e'')
   \<and> mesh_convertible (entity_mesh (JStr ''e'') (JObj [(''id'', JStr ''e'')]))
   \<and> (\<exists>m. createEntityMesh (JStr ''e'') (JObj [(''id'', JStr ''e'')]) initial_renderer =
            Returned (initial_renderer\<lparr> objects := [m] \<rparr>)
          \<and> position m = (JNum 0, JNum 0, JNum 0) \<and> rotation m = (JNum 0, JNum 0, JNum 0)
          \<and> geom m = BoxGeometry (JNum 1) (JNum 1) (JNum 1))
   \<and> nullish JNull
   \<and> createEntityMesh (JStr ''e'') JNull initial_renderer = Returned initial_renderer
   \<and> \<not> convertible (JObj [(''toString'', JNum 1)])
   \<and> createEntityMesh (JObj [(''toString'', JNum 1)]) (JObj [(''id'', JStr ''e'')]) initial_renderer =
        Raised TypeError (initial_renderer\<lparr> objects :=
           [entity_mesh (JObj [(''toString'', JNum 1)]) (JObj [(''id'', JStr ''e'')])] \<rparr>)"
proof -
  let ?e = "JObj [(''id'', JStr ''e'')]"
  let ?n = "JObj [(''toString'', JNum 1)]"
  have n: "\<not> nullish ?e" by simp
  have c: "convertible (JStr ''e'')" by simp
  have m: "mesh_convertible (entity_mesh nm ?e)" for nm
    by (simp add: mesh_convertible_def entity_mesh_def entity_rotation_def entity_scale_def
        entity_primitive_def primitiveObj_def transformProps_def extractVector3_def make_geometry_def
        js_or_def js_opt_def Let_def)
  have t: "\<not> truthy (js_get (js_or (js_get ?e ''components'') (JObj [])) ''transform'')"
    by (simp add: js_or_def)
  have g: "\<not> truthy (js_get (js_or (js_get ?e ''components'') (JObj [])) ''geometry'')"
    by (simp add: js_or_def)
  have o: "objects initial_renderer = []"
    by (simp add: initial_renderer_def)
  from createEntityMesh_defaults [of ?e "JStr ''e''" initial_renderer] n c m [of "JStr ''e''"] t g
  have first: "\<exists>m. createEntityMesh (JStr ''e'') ?e initial_renderer =
            Returned (initial_renderer\<lparr> objects := [m] \<rparr>)
          \<and> position m = (JNum 0, JNum 0, JNum 0) \<and> rotation m = (JNum 0, JNum 0, JNum 0)
          \<and> geom m = BoxGeometry (JNum 1) (JNum 1) (JNum 1)"
    by (auto simp: o)
  from createEntityMesh_defaults [of JNull "JStr ''e''" initial_renderer]
  have second: "createEntityMesh (JStr ''e'') JNull initial_renderer = Returned initial_renderer"
    by simp
  have nc: "\<not> convertible ?n" by simp
  from createEntityMesh_defaults [of ?e ?n initial_renderer] n nc m [of ?n]
  have third: "createEntityMesh ?n ?e initial_renderer =
        Raised TypeError (initial_renderer\<lparr> objects := [entity_mesh ?n ?e] \<rparr>)"
    by (simp add: o)
  from n c m [of "JStr ''e''"] first second nc third show ?thesis by simp
qed

subsection \<open>Timeline events\<close>

lemma fill_motionMap_ir:
  "fill_motionMap (map motion_json ms) mm = Returned (foldl store_motion mm ms)"
  by (induction ms arbitrary: mm) (simp_all add: store_motion_def motion_json_def motion_props_def)

lemma last_filter_Cons:
  "last (filter P (x # xs)) = (if \<exists>y\<in>set xs. P y then last (filter P xs) else if P x then x else last [])"
  by (auto simp: filter_empty_conv)

text \<open>
  A map in which no own property is called \<^verbatim>\<open>__proto__\<close>, neither in the map nor
  in its prototype: assignments under that key reach the setter. Storing motions of
  the IR's shape keeps it so.
\<close>

lemma motion_props_no_proto: "map_of (motion_props m) ''__proto__'' = None"
  by (simp add: motion_props_def)

lemma reaches_setter_iff:
  "map_of (own mm) ''__proto__'' = None \<Longrightarrow>
   (case proto mm of None \<Rightarrow> True | Some kvs \<Rightarrow> map_of kvs ''__proto__'' = None) \<Longrightarrow>
   reaches_setter mm k = (k = ''__proto__'')"
  by (auto simp: reaches_setter_def)

lemma store_motion_own:
  assumes "map_of (own mm) ''__proto__'' = None"
    and "case proto mm of None \<Rightarrow> True | Some kvs \<Rightarrow> map_of kvs ''__proto__'' = None"
  shows "own (store_motion mm m) = (if m_id m = ''__proto__'' then own mm else (m_id m, motion_json m) # own mm)"
    and "proto (store_motion mm m) = (if m_id m = ''__proto__'' then Some (motion_props m) else proto mm)"
  using assms
  by (simp_all add: store_motion_def motionMap_set_def reaches_setter_iff motion_json_def)

lemma store_motion_keeps:
  assumes "map_of (own mm) ''__proto__'' = None"
    and "case proto mm of None \<Rightarrow> True | Some kvs \<Rightarrow> map_of kvs ''__proto__'' = None"
  shows "map_of (own (store_motion mm m)) ''__proto__'' = None"
    and "case proto (store_motion mm m) of None \<Rightarrow> True | Some kvs \<Rightarrow> map_of kvs ''__proto__'' = None"
  using assms
  by (auto simp: store_motion_own motion_props_no_proto split: option.splits)

lemma own_foldl_store:
  assumes "map_of (own mm) ''__proto__'' = None"
    and "case proto mm of None \<Rightarrow> True | Some kvs \<Rightarrow> map_of kvs ''__proto__'' = None"
  shows "map_of (own (foldl store_motion mm ms)) k =
     (if k \<noteq> ''__proto__'' \<and> k \<in> m_id ` set ms
        then Some (motion_json (last (filter (\<lambda>m. m_id m = k) ms)))
      else map_of (own mm) k)"
  using assms
proof (induction ms arbitrary: mm)
  case Nil
  show ?case by simp
next
  case (Cons m ms)
  have step: "map_of (own (store_motion mm m)) k =
      (if k \<noteq> ''__proto__'' \<and> m_id m = k then Some (motion_json m) else map_of (own mm) k)"
    using Cons.prems by (auto simp: store_motion_own)
  show ?case
    using Cons.IH [OF store_motion_keeps [OF Cons.prems]] step
    by (auto simp: last_filter_Cons filter_empty_conv image_iff)
qed

lemma proto_foldl_store:
  assumes "map_of (own mm) ''__proto__'' = None"
    and "case proto mm of None \<Rightarrow> True | Some kvs \<Rightarrow> map_of kvs ''__proto__'' = None"
  shows "proto (foldl store_motion mm ms) =
     (if ''__proto__'' \<in> m_id ` set ms
        then Some (motion_props (last (filter (\<lambda>m. m_id m = ''__proto__'') ms)))
      else proto mm)"
  using assms
proof (induction ms arbitrary: mm)
  case Nil
  show ?case by simp
next
  case (Cons m ms)
  have step: "proto (store_motion mm m) =
      (if m_id m = ''__proto__'' then Some (motion_props m) else proto mm)"
    using Cons.prems by (simp add: store_motion_own)
  show ?case
    using Cons.IH [OF store_motion_keeps [OF Cons.prems]] step
    by (auto simp: last_filter_Cons filter_empty_conv image_iff)
qed

lemma motionMap_get_stored:
  assumes "k \<in> m_id ` set ms"
  shows "motionMap_get (foldl store_motion empty_motionMap ms) k =
     motion_json (last (filter (\<lambda>m. m_id m = k) ms))"
proof -
  have e1: "map_of (own empty_motionMap) ''__proto__'' = None"
    and e2: "case proto empty_motionMap of None \<Rightarrow> True | Some kvs \<Rightarrow> map_of kvs ''__proto__'' = None"
    by (simp_all add: empty_motionMap_def)
  show ?thesis
  proof (cases "k = ''__proto__''")
    case True
    have o: "map_of (own (foldl store_motion empty_motionMap ms)) ''__proto__'' = None"
      using own_foldl_store [OF e1 e2, of ms "''__proto__''"] by (simp add: e1)
    have p: "proto (foldl store_motion empty_motionMap ms) =
        Some (motion_props (last (filter (\<lambda>m. m_id m = ''__proto__'') ms)))"
      using proto_foldl_store [OF e1 e2, of ms] assms True by simp
    show ?thesis
      by (simp add: True motionMap_get_def inherited_get_def o p motion_props_no_proto
          object_prototype_get_def prototype_of_def motion_json_def)
  next
    case False
    with assms show ?thesis
      by (simp add: motionMap_get_def own_foldl_store [OF e1 e2])
  qed
qed

lemma event_entries_ir: "event_entries mm (event_json e) = Ok (entries_of mm e)"
  by (simp add: event_entries_def event_json_def entries_of_def js_or_def Let_def)

lemma load_events_ir:
  "load_events mm (map event_json es) acc = Returned (acc @ concat (map (entries_of mm) es))"
  by (induction es arbitrary: acc) (simp_all add: event_entries_ir)

lemma load_timelines_ir:
  "load_timelines mm (map timeline_json tls) acc =
     Returned (acc @ concat (map (entries_of mm) (concat (map t_events tls))))"
proof (induction tls arbitrary: acc)
  case Nil
  show ?case by simp
next
  case (Cons t tls)
  have ev: "js_or (js_get (timeline_json t) ''events'') (JArr []) = JArr (map event_json (t_events t))"
    by (simp add: timeline_json_def js_or_def)
  have nn: "\<not> nullish (timeline_json t)"
    by (simp add: timeline_json_def)
  show ?case
    by (simp add: ev nn load_events_ir Cons.IH)
qed

lemma loadMotions_ir:
  "loadMotions (JArr (map motion_json ms)) (JArr (map timeline_json tls)) r =
     Returned (r\<lparr> motions := JArr (map motion_json ms),
                  timelineEvents := concat (map (entries_of (foldl store_motion empty_motionMap ms))
                                              (concat (map t_events tls))) \<rparr>)"
  by (simp add: loadMotions_def js_or_def Let_def fill_motionMap_ir load_timelines_ir)

lemma entries_of_stored:
  assumes "e_motion_id e \<in> m_id ` set ms"
  shows "entries_of (foldl store_motion empty_motionMap ms) e =
     [\<lparr> start = JNum (e_start_time e), duration = JNum (e_duration e),
        motion = motion_json (last (filter (\<lambda>m. m_id m = e_motion_id e) ms)) \<rparr>]"
  using assms by (simp add: entries_of_def motionMap_get_stored js_or_def motion_json_def Let_def)

text \<open>
  Claim C4. On a scene of the IR's shape, \<^verbatim>\<open>loadMotions\<close> returns, stores the
  motions, and fills \<^verbatim>\<open>timelineEvents\<close> with what the events contribute one after
  the other in the order of the scene, none or one entry each (\<open>f\<close>). An event whose
  \<^verbatim>\<open>motion_id\<close> is the id of a motion of the list contributes exactly one entry: its
  start is the event's \<^verbatim>\<open>start_time\<close>, its duration the event's \<^verbatim>\<open>duration\<close>, and
  its motion the motion of the list with that id (the last one, should the list repeat
  an id). With numbers read as reals this holds for every start time and duration, so
  in particular for \<open>start_time \<ge> 0\<close> and \<open>duration > 0\<close>.
\<close>

theorem loadMotions_timeline_events:
  "\<exists>f. loadMotions (JArr (map motion_json ms)) (JArr (map timeline_json tls)) r =
          Returned (r\<lparr> motions := JArr (map motion_json ms),
                       timelineEvents := concat (map f (concat (map t_events tls))) \<rparr>)
      \<and> (\<forall>e. length (f e) \<le> 1)
      \<and> (\<forall>e. e_motion_id e \<in> m_id ` set ms \<longrightarrow>
             f e = [\<lparr> start = JNum (e_start_time e), duration = JNum (e_duration e),
                      motion = motion_json (last (filter (\<lambda>m. m_id m = e_motion_id e) ms)) \<rparr>])"
proof -
  let ?f = "entries_of (foldl store_motion empty_motionMap ms)"
  have "\<forall>e. length (?f e) \<le> 1"
    by (simp add: entries_of_def Let_def)
  moreover have "\<forall>e. e_motion_id e \<in> m_id ` set ms \<longrightarrow>
             ?f e = [\<lparr> start = JNum (e_start_time e), duration = JNum (e_duration e),
                      motion = motion_json (last (filter (\<lambda>m. m_id m = e_motion_id e) ms)) \<rparr>]"
    by (simp add: entries_of_stored)
  ultimately show ?thesis
    using loadMotions_ir [of ms tls r] by blast
qed

theorem loadMotions_timeline_events_witness:
  "loadMotions (JArr (map motion_json [spin_motion]))
      (JArr (map timeline_json [IrTimeline ''main'' [IrEvent ''spin'' 0 10]])) initial_renderer =
     Returned (initial_renderer\<lparr> motions := JArr (map motion_json [spin_motion]),
        timelineEvents := [\<lparr> start = JNum 0, duration = JNum 10, motion = motion_json spin_motion \<rparr>] \<rparr>)"
proof -
  have i: "e_motion_id (IrEvent ''spin'' 0 10) \<in> m_id ` set [spin_motion]"
    by (simp add: spin_motion_def)
  have l: "last (filter (\<lambda>m. m_id m = e_motion_id (IrEvent ''spin'' 0 10)) [spin_motion]) = spin_motion"
    by (simp add: spin_motion_def)
  from loadMotions_timeline_events [of "[spin_motion]" "[IrTimeline ''main'' [IrEvent ''spin'' 0 10]]" initial_renderer]
  obtain f where f: "loadMotions (JArr (map motion_json [spin_motion]))
        (JArr (map timeline_json [IrTimeline ''main'' [IrEvent ''spin'' 0 10]])) initial_renderer =
          Returned (initial_renderer\<lparr> motions := JArr (map motion_json [spin_motion]),
                       timelineEvents := concat (map f (concat (map t_events [IrTimeline ''main'' [IrEvent ''spin'' 0 10]]))) \<rparr>)"
     and g: "\<forall>e. e_motion_id e \<in> m_id ` set [spin_motion] \<longrightarrow>
             f e = [\<lparr> start = JNum (e_start_time e), duration = JNum (e_duration e),
                      motion = motion_json (last (filter (\<lambda>m. m_id m = e_motion_id e) [spin_motion])) \<rparr>]"
    by blast
  from g i l have "f (IrEvent ''spin'' 0 10) = [\<lparr> start = JNum 0, duration = JNum 10, motion = motion_json spin_motion \<rparr>]"
    by (metis ir_event.sel(2) ir_event.sel(3))
  with f show ?thesis by simp
qed

text \<open>
  Claim C8 fails on the code. \<^verbatim>\<open>motionMap\<close> is an object literal, so a
  \<^verbatim>\<open>motion_id\<close> that names a member of \<^verbatim>\<open>Object.prototype\<close> finds that member: with
  no motion at all, the event below is not discarded, and the entry it adds holds the
  function \<^verbatim>\<open>Object.prototype.toString\<close>, which is no motion of the list.
\<close>

theorem loadMotions_inherited_key:
  "loadMotions (JArr []) (JArr [timeline_json (IrTimeline ''main'' [IrEvent ''toString'' 0 1])]) initial_renderer =
     Returned (initial_renderer\<lparr> timelineEvents :=
        [\<lparr> start = JNum 0, duration = JNum 1, motion = JHost ''Object.prototype.toString'' \<rparr>] \<rparr>)"
  by (simp add: loadMotions_def js_or_def Let_def timeline_json_def event_json_def event_entries_def
      empty_motionMap_def motionMap_get_def inherited_get_def object_prototype_get_def
      object_prototype_members_def initial_renderer_def)

text \<open>
  What does hold of every entry: its motion is truthy, so never \<^verbatim>\<open>null\<close>.
\<close>

lemma event_entries_truthy:
  "event_entries mm ev = Ok es \<Longrightarrow> e \<in> set es \<Longrightarrow> truthy (motion e)"
  by (auto simp: event_entries_def js_or_def Let_def split: if_splits option.splits)

subsection \<open>Animation of rotations\<close>

lemma entity_mesh_cube1: "entity_mesh (JStr ''cube1'') cube1_entity = cube1_mesh"
  by (simp add: entity_mesh_def cube1_entity_def cube1_mesh_def entity_position_def entity_rotation_def
      entity_scale_def transformProps_def extractVector3_def entity_primitive_def primitiveObj_def
      make_geometry_def js_or_def js_opt_def Let_def)

lemma find_cube1: "findObjectByName (playing m spans t) (JStr ''cube1'') = Ok (Some 0)"
  by (simp add: findObjectByName_def playing_def initial_renderer_def object_matches_def cube1_mesh_def)

text \<open>
  Claim C6 fails on the code for a speed of zero in its tagged form. Line 189 reads
  \<^verbatim>\<open>motion.parameters?.speed?.Number || motion.parameters?.speed || 0\<close>: the number
  \<open>0\<close> under the tag is falsy, so the second operand, the tagged object itself, is
  the speed, and the rotation applied to the cube is computed from that object instead
  of from zero. (The event runs over \<open>[0, 10]\<close>; the sum \<open>0 + 10\<close> is exact in
  doubles, so the machine's sum is the sum of the reals here.)
\<close>

theorem tagged_zero_speed_not_unwrapped:
  "motion_speed (motion_json still_motion) = JObj [(''Number'', JNum 0)]
   \<and> updateAnimations (+) (1 / 60) (playing still_motion [(0, 10)] 1) =
       Returned ((playing still_motion [(0, 10)] 1)\<lparr> objects :=
          [cube1_mesh\<lparr> quaternion := [\<lparr> axis = JArr [JNum 0, JNum 1, JNum 0],
                                         speed = JObj [(''Number'', JNum 0)], delta = 1 / 60 \<rparr>] \<rparr>] \<rparr>)"
proof -
  have sp: "motion_speed (motion_json still_motion) = JObj [(''Number'', JNum 0)]"
    by (simp add: motion_speed_def motion_json_def motion_props_def still_motion_def js_or_def js_opt_def Let_def)
  have ax: "motion_axis (motion_json still_motion) = JArr [JNum 0, JNum 1, JNum 0]"
    by (simp add: motion_axis_def motion_json_def motion_props_def still_motion_def js_or_def js_opt_def Let_def)
  have ty: "js_get (motion_json still_motion) ''motion_type'' = JStr ''rotation''"
    and tg: "js_get (motion_json still_motion) ''target_entity'' = JStr ''cube1''"
    and tr: "truthy (motion_json still_motion)"
    by (simp_all add: motion_json_def motion_props_def still_motion_def)
  have ap: "apply_motion (1 / 60) (motion_json still_motion) (playing still_motion [(0, 10)] 1) =
       Returned ((playing still_motion [(0, 10)] 1)\<lparr> objects :=
          [cube1_mesh\<lparr> quaternion := [\<lparr> axis = JArr [JNum 0, JNum 1, JNum 0],
                                         speed = JObj [(''Number'', JNum 0)], delta = 1 / 60 \<rparr>] \<rparr>] \<rparr>)"
    by (simp add: apply_motion_def ty tg tr find_cube1 sp ax Let_def)
       (simp add: playing_def cube1_mesh_def)
  have "updateAnimations (+) (1 / 60) (playing still_motion [(0, 10)] 1) =
      apply_motion (1 / 60) (motion_json still_motion) (playing still_motion [(0, 10)] 1)"
    by (simp add: updateAnimations_def animate_event_def event_active_def playing_def initial_renderer_def
        split: effect.splits)
  with sp ap show ?thesis by simp
qed

text \<open>
  Elsewhere the axis and the speed are those of \<^verbatim>\<open>motion.parameters\<close>, tagged or
  bare; fields at the top level of the motion are not read.
\<close>

lemma motion_speed_tagged:
  "x \<noteq> 0 \<Longrightarrow> motion_speed (JObj [(''parameters'', JObj [(''speed'', JObj [(''Number'', JNum x)])])]) = JNum x"
  by (simp add: motion_speed_def js_or_def js_opt_def Let_def)

lemma motion_speed_bare:
  "motion_speed (JObj [(''parameters'', JObj [(''speed'', JNum x)])]) = JNum x"
  by (simp add: motion_speed_def js_or_def js_opt_def Let_def)

lemma motion_axis_tagged:
  "motion_axis (JObj [(''parameters'', JObj [(''axis'', JObj [(''Vector3'', JArr xs)])])]) = JArr xs"
  by (simp add: motion_axis_def js_or_def js_opt_def Let_def)

lemma motion_axis_bare:
  "motion_axis (JObj [(''parameters'', JObj [(''axis'', JArr xs)])]) = JArr xs"
  by (simp add: motion_axis_def js_or_def js_opt_def Let_def)

lemma motion_top_level_fields_ignored:
  "motion_axis (JObj [(''axis'', a), (''speed'', b)]) = JArr [JNum 0, JNum 1, JNum 0]
   \<and> motion_speed (JObj [(''axis'', a), (''speed'', b)]) = JNum 0"
  by (simp add: motion_axis_def motion_speed_def js_or_def js_opt_def Let_def)

subsection \<open>The interval of an event\<close>

lemma event_active_numeric:
  "event_active fadd t (numeric_event x) = Some (within_interval fadd t x)"
  by (auto simp: event_active_def numeric_event_def within_interval_def)

lemma motion_numeric_event: "motion (numeric_event x) = snd (snd x)"
  by (simp add: numeric_event_def)

lemma apply_motions_single: "apply_motions dt [m] r = apply_motion dt m r"
  by (cases "apply_motion dt m r") simp_all

lemma apply_motions_step:
  "apply_motion dt m r = Returned r' \<Longrightarrow> apply_motions dt (m # ms) r = apply_motions dt ms r'"
  by simp

text \<open>Running a motion changes the objects only: the time of the renderer stays.\<close>

lemma apply_motion_currentTime:
  "apply_motion dt m r = Returned r' \<Longrightarrow> currentTime r' = currentTime r"
  by (auto simp: apply_motion_def Let_def split: if_splits result.splits option.splits)

lemma animate_events_numeric:
  "animate_events fadd dt (map numeric_event xs) r =
     apply_motions dt (map (\<lambda>x. snd (snd x)) (filter (within_interval fadd (currentTime r)) xs)) r"
proof (induction xs arbitrary: r)
  case Nil
  show ?case by simp
next
  case (Cons x xs)
  show ?case
  proof (cases "within_interval fadd (currentTime r) x")
    case False
    then have "animate_event fadd dt (numeric_event x) r = Returned r"
      by (simp add: animate_event_def event_active_numeric)
    with False Cons.IH [of r] show ?thesis by simp
  next
    case True
    then have a: "animate_event fadd dt (numeric_event x) r = apply_motion dt (snd (snd x)) r"
      by (simp add: animate_event_def event_active_numeric motion_numeric_event)
    show ?thesis
    proof (cases "apply_motion dt (snd (snd x)) r")
      case (Returned r')
      then have "currentTime r' = currentTime r" by (rule apply_motion_currentTime)
      with Returned a True Cons.IH [of r'] show ?thesis by simp
    next
      case (Raised e r')
      with a True show ?thesis by simp
    next
      case Outside
      with a True show ?thesis by simp
    qed
  qed
qed

lemma apply_motion_rotation:
  assumes "js_get m ''motion_type'' = JStr ''rotation''"
    and "findObjectByName r (js_get m ''target_entity'') = Ok (Some i)"
    and "convertible (js_index (motion_axis m) 0)" and "convertible (js_index (motion_axis m) 1)"
    and "convertible (js_index (motion_axis m) 2)" and "convertible (motion_speed m)"
  shows "apply_motion dt m r =
          Returned (r\<lparr> objects := (objects r)[i := (objects r ! i)\<lparr> quaternion :=
                  \<lparr> axis = motion_axis m, speed = motion_speed m, delta = dt \<rparr> # quaternion (objects r ! i) \<rparr>] \<rparr>)"
  using assms by (cases m) (auto simp: apply_motion_def Let_def)

text \<open>
  Claim C9. The sum of line 183 is the sum of the machine's doubles, \<open>fadd\<close>, and
  \<open>start + duration\<close> below is that sum. When the events of the renderer have numbers
  for start and duration, \<^verbatim>\<open>updateAnimations\<close> runs, in order, the motions of
  exactly those events with \<open>start \<le> t \<le> start + duration\<close> at the current time
  \<open>t\<close>, and of no other; running the motion of a rotation whose target is found
  premultiplies one rotation to the target's quaternion (when the axis and the speed
  convert to numbers). The interval is closed: at \<open>t = start + duration\<close> the event
  passes the test as soon as \<open>start \<le> start + duration\<close>, which IEEE addition gives
  for every duration that is not negative; and of two events back to back, the second
  starting at the instant \<open>start + duration\<close> of the first, both motions are run at
  that instant.
\<close>

theorem closed_interval_activity:
  "(timelineEvents r = map numeric_event xs \<longrightarrow>
      updateAnimations fadd dt r =
        apply_motions dt (map (\<lambda>x. snd (snd x))
          (filter (\<lambda>x. fst x \<le> currentTime r \<and> currentTime r \<le> fadd (fst x) (fst (snd x))) xs)) r)
   \<and> event_active fadd t (numeric_event (s, d, m)) = Some (s \<le> t \<and> t \<le> fadd s d)
   \<and> event_active fadd (fadd s d) (numeric_event (s, d, m)) = Some (s \<le> fadd s d)
   \<and> (timelineEvents r = [numeric_event (s, d, m), numeric_event (fadd s d, d', m)]
        \<and> currentTime r = fadd s d
        \<and> s \<le> fadd s d \<and> fadd s d \<le> fadd (fadd s d) d' \<longrightarrow>
        updateAnimations fadd dt r = apply_motions dt [m, m] r)
   \<and> (js_get m ''motion_type'' = JStr ''rotation''
        \<and> findObjectByName r (js_get m ''target_entity'') = Ok (Some i)
        \<and> convertible (js_index (motion_axis m) 0) \<and> convertible (js_index (motion_axis m) 1)
        \<and> convertible (js_index (motion_axis m) 2) \<and> convertible (motion_speed m) \<longrightarrow>
        apply_motions dt [m] r =
          Returned (r\<lparr> objects := (objects r)[i := (objects r ! i)\<lparr> quaternion :=
                  \<lparr> axis = motion_axis m, speed = motion_speed m, delta = dt \<rparr> # quaternion (objects r ! i) \<rparr>] \<rparr>))"
proof -
  have w: "within_interval fadd u = (\<lambda>x. fst x \<le> u \<and> u \<le> fadd (fst x) (fst (snd x)))" for u
    by (rule ext) (simp add: within_interval_def)
  have general: "timelineEvents r = map numeric_event xs \<longrightarrow>
      updateAnimations fadd dt r =
        apply_motions dt (map (\<lambda>x. snd (snd x))
          (filter (\<lambda>x. fst x \<le> currentTime r \<and> currentTime r \<le> fadd (fst x) (fst (snd x))) xs)) r"
    using animate_events_numeric [of fadd dt xs r]
    by (simp add: updateAnimations_def w)
  have act: "event_active fadd u (numeric_event (a, b, m)) = Some (a \<le> u \<and> u \<le> fadd a b)" for u a b
    by (simp add: event_active_numeric within_interval_def)
  have pair: "timelineEvents r = [numeric_event (s, d, m), numeric_event (fadd s d, d', m)]
        \<and> currentTime r = fadd s d
        \<and> s \<le> fadd s d \<and> fadd s d \<le> fadd (fadd s d) d' \<longrightarrow>
        updateAnimations fadd dt r = apply_motions dt [m, m] r"
    using animate_events_numeric [of fadd dt "[(s, d, m), (fadd s d, d', m)]" r]
    by (simp add: updateAnimations_def within_interval_def)
  have app: "js_get m ''motion_type'' = JStr ''rotation''
        \<and> findObjectByName r (js_get m ''target_entity'') = Ok (Some i)
        \<and> convertible (js_index (motion_axis m) 0) \<and> convertible (js_index (motion_axis m) 1)
        \<and> convertible (js_index (motion_axis m) 2) \<and> convertible (motion_speed m) \<longrightarrow>
        apply_motions dt [m] r =
          Returned (r\<lparr> objects := (objects r)[i := (objects r ! i)\<lparr> quaternion :=
                  \<lparr> axis = motion_axis m, speed = motion_speed m, delta = dt \<rparr> # quaternion (objects r ! i) \<rparr>] \<rparr>)"
    by (simp add: apply_motion_rotation)
  from general act [of t s d] act [of "fadd s d" s d] pair app show ?thesis
    by simp
qed

theorem closed_interval_activity_witness:
  "updateAnimations (+) (1 / 60) (playing spin_motion [(0, 2), (2, 3)] 2) =
     Returned ((playing spin_motion [(0, 2), (2, 3)] 2)\<lparr> objects :=
        [cube1_mesh\<lparr> quaternion :=
           [\<lparr> axis = JArr [JNum 0, JNum 1, JNum 0], speed = JNum 1.5708, delta = 1 / 60 \<rparr>,
            \<lparr> axis = JArr [JNum 0, JNum 1, JNum 0], speed = JNum 1.5708, delta = 1 / 60 \<rparr>] \<rparr>] \<rparr>)"
proof -
  let ?m = "motion_json spin_motion"
  let ?r = "playing spin_motion [(0, 2), (2, 3)] 2"
  let ?q = "\<lparr> axis = JArr [JNum 0, JNum 1, JNum 0], speed = JNum 1.5708, delta = 1 / 60 \<rparr>"
  let ?r1 = "?r\<lparr> objects := [cube1_mesh\<lparr> quaternion := [?q] \<rparr>] \<rparr>"
  have sp: "motion_speed ?m = JNum 1.5708"
    by (simp add: motion_speed_def motion_json_def motion_props_def spin_motion_def js_or_def js_opt_def Let_def)
  have ax: "motion_axis ?m = JArr [JNum 0, JNum 1, JNum 0]"
    by (simp add: motion_axis_def motion_json_def motion_props_def spin_motion_def js_or_def js_opt_def Let_def)
  have ty: "js_get ?m ''motion_type'' = JStr ''rotation''"
    and tg: "js_get ?m ''target_entity'' = JStr ''cube1''"
    by (simp_all add: motion_json_def motion_props_def spin_motion_def)
  have f0: "findObjectByName ?r (js_get ?m ''target_entity'') = Ok (Some 0)"
    by (simp add: tg find_cube1)
  have f1: "findObjectByName ?r1 (js_get ?m ''target_entity'') = Ok (Some 0)"
    by (simp add: tg findObjectByName_def object_matches_def cube1_mesh_def)
  have q0: "quaternion cube1_mesh = []"
    by (simp add: cube1_mesh_def)
  have o0: "objects ?r = [cube1_mesh]" and t0: "currentTime ?r = 2"
    by (simp_all add: playing_def)
  let ?xs = "[(0, 2, ?m), (2, 3, ?m)]"
  have ev: "timelineEvents ?r = map numeric_event ?xs"
    by (simp add: playing_def numeric_event_def)
  have both: "updateAnimations (+) (1 / 60) ?r = apply_motions (1 / 60) [?m, ?m] ?r"
    using closed_interval_activity [of ?r ?xs "(+)" "1 / 60" 2 0 2 ?m 3 0] ev
    by (simp add: t0)
  have a1: "apply_motions (1 / 60) [?m] ?r = Returned ?r1"
    using closed_interval_activity [of ?r ?xs "(+)" "1 / 60" 2 0 2 ?m 3 0] ty f0
    by (simp add: sp ax o0 q0)
  have a2: "apply_motions (1 / 60) [?m] ?r1 =
      Returned (?r\<lparr> objects := [cube1_mesh\<lparr> quaternion := [?q, ?q] \<rparr>] \<rparr>)"
    using closed_interval_activity [of ?r1 ?xs "(+)" "1 / 60" 2 0 2 ?m 3 0] ty f1
    by (simp add: sp ax)
  have b1: "apply_motion (1 / 60) ?m ?r = Returned ?r1"
    using a1 by (simp only: apply_motions_single)
  have "apply_motions (1 / 60) [?m, ?m] ?r = apply_motions (1 / 60) [?m] ?r1"
    by (rule apply_motions_step [OF b1])
  with a2 both show ?thesis by (simp only:)
qed

subsection \<open>Compiling from the page\<close>

text \<open>
  \<^verbatim>\<open>loadScene\<close> never returns normally on a scene: \<^verbatim>\<open>fitCameraToScene\<close>
  raises. So no run of \<^verbatim>\<open>handleCompile\<close> reaches \<^verbatim>\<open>state.setScene\<close>: the state of
  the application is the same after every run.
\<close>

lemma loadScene_never_returns: "truthy sc \<Longrightarrow> loadScene sc r \<noteq> Returned r'"
  by (auto simp: loadScene_def fit_and_reset_step_def fitCameraToScene_def Let_def split: effect.splits)

lemma on_compile_result_state:
  "on_compile_result res a = Some a' \<Longrightarrow> state a' = state a"
  by (auto simp: on_compile_result_def catch_error_def updateStatus_def Let_def loadScene_never_returns
      split: if_splits effect.splits result.splits)

lemma handleCompile_state:
  "handleCompile src vr cr a = Some a' \<Longrightarrow> state a' = state a"
  by (auto simp: handleCompile_def validate_then_compile_def catch_error_def updateStatus_def
      showLoading_def send_def Let_def dest!: on_compile_result_state
      split: if_splits sum.splits result.splits option.splits)

lemma join_texts_strings: "join_texts (map JStr es) = Some es"
  by (induction es) simp_all

lemma js_join_strings: "js_join (JArr (map JStr es)) sep = Ok (join_strings sep es)"
  by (simp add: js_join_def join_texts_strings)

text \<open>
  Claim C2. In a run of \<^verbatim>\<open>handleCompile\<close> that sends the validation request (the
  source is not empty) and is answered with \<^verbatim>\<open>valid\<close> equal to \<^verbatim>\<open>false\<close>: when
  \<^verbatim>\<open>errors\<close> is a list of strings, as the interface has it, the status line shows
  \<^verbatim>\<open>Validation failed: \<close> followed by the errors joined with \<^verbatim>\<open>"; "\<close>, the
  overlay is hidden, and the validation request is the only one sent; and whatever
  \<^verbatim>\<open>errors\<close> is, no request goes to \<^verbatim>\<open>POST /api/compile/\<close> and the renderer
  and the state of the application (so the loaded and the current scene) are unchanged.
\<close>

theorem invalid_source_not_compiled:
  assumes "dslSource \<noteq> []" and "js_get validateResult ''valid'' = JBool False"
  shows "(\<forall>es. js_get validateResult ''errors'' = JArr (map JStr es) \<longrightarrow>
            handleCompile dslSource (Inr validateResult) compileReply a =
              Some (a\<lparr> status := (Text (''Validation failed: '' @ join_strings ''; '' es), ''error''),
                       loading := False,
                       requests := requests a @ [validate_request dslSource] \<rparr>))
       \<and> (\<forall>a'. handleCompile dslSource (Inr validateResult) compileReply a = Some a' \<longrightarrow>
            requests a' = requests a @ [validate_request dslSource]
            \<and> renderer a' = renderer a \<and> state a' = state a)"
proof -
  from assms(2) have nn: "\<not> nullish validateResult"
    by (cases validateResult) auto
  have v: "validate_then_compile dslSource (Inr validateResult) compileReply b =
      (case js_join (js_get validateResult ''errors'') ''; '' of
         Unmodelled \<Rightarrow> None
       | Throw e \<Rightarrow> Some (catch_error e (send (validate_request dslSource) b))
       | Ok errors \<Rightarrow> Some (showLoading False
            (updateStatus (Text (''Validation failed: '' @ errors)) ''error'' (send (validate_request dslSource) b))))"
    for b
    by (simp add: validate_then_compile_def nn assms(2) validate_request_def Let_def split: result.splits)
  have first: "\<forall>es. js_get validateResult ''errors'' = JArr (map JStr es) \<longrightarrow>
            handleCompile dslSource (Inr validateResult) compileReply a =
              Some (a\<lparr> status := (Text (''Validation failed: '' @ join_strings ''; '' es), ''error''),
                       loading := False,
                       requests := requests a @ [validate_request dslSource] \<rparr>)"
    using assms(1)
    by (simp add: handleCompile_def v js_join_strings showLoading_def updateStatus_def send_def Let_def)
  have second: "\<forall>a'. handleCompile dslSource (Inr validateResult) compileReply a = Some a' \<longrightarrow>
            requests a' = requests a @ [validate_request dslSource]
            \<and> renderer a' = renderer a \<and> state a' = state a"
    using assms(1)
    by (auto simp: handleCompile_def v showLoading_def updateStatus_def send_def catch_error_def Let_def
        split: result.splits)
  from first second show ?thesis by blast
qed

theorem invalid_source_not_compiled_witness:
  "handleCompile ''entity box { }''
      (Inr (JObj [(''valid'', JBool False),
                  (''errors'', JArr [JStr ''E101: missing scene'', JStr ''E100: unexpected token''])]))
      (Inl (Rejected ''unused'')) initial_app =
     Some (initial_app\<lparr> status := (Text ''Validation failed: E101: missing scene; E100: unexpected token'', ''error''),
                          loading := False,
                          requests := [Post ''/api/compile/validate'' (JObj [(''dsl_source'', JStr ''entity box { }'')])] \<rparr>)"
proof -
  let ?v = "JObj [(''valid'', JBool False),
                  (''errors'', JArr [JStr ''E101: missing scene'', JStr ''E100: unexpected token''])]"
  have a: "''entity box { }'' \<noteq> []" by simp
  have b: "js_get ?v ''valid'' = JBool False" by simp
  have c: "js_get ?v ''errors'' = JArr (map JStr [''E101: missing scene'', ''E100: unexpected token''])" by simp
  from invalid_source_not_compiled [OF a b, of "Inl (Rejected ''unused'')" initial_app] c
  have "handleCompile ''entity box { }'' (Inr ?v) (Inl (Rejected ''unused'')) initial_app =
      Some (initial_app\<lparr> status := (Text (''Validation failed: '' @ join_strings ''; ''
                 [''E101: missing scene'', ''E100: unexpected token'']), ''error''),
                       loading := False,
                       requests := requests initial_app @ [validate_request ''entity box { }''] \<rparr>)"
    by blast
  then show ?thesis
    by (simp add: validate_request_def initial_app_def)
qed

lemma loadScene_cube_scene:
  "loadScene cube_scene initial_renderer =
     Raised TypeError (initial_renderer\<lparr> objects := [cube1_mesh], objectCount := 1 \<rparr>)"
proof -
  have e: "js_get cube_scene ''entities'' = JArr [cube1_entity]"
    and m: "js_get cube_scene ''motions'' = JArr []"
    and t: "js_get cube_scene ''timelines'' = JArr []"
    by (simp_all add: cube_scene_def)
  have id: "js_get cube1_entity ''id'' = JStr ''cube1''" and nn: "\<not> nullish cube1_entity"
    by (simp_all add: cube1_entity_def)
  have c: "clearScene initial_renderer = initial_renderer"
    by (simp add: clearScene_def initial_renderer_def)
  have l: "load_entities_step cube_scene initial_renderer = Returned (initial_renderer\<lparr> objects := [cube1_mesh] \<rparr>)"
    by (simp add: load_entities_step_def e id nn js_or_def createEntityMesh_def log_creation_error_def
          mesh_convertible_def entity_mesh_cube1)
       (simp add: initial_renderer_def cube1_mesh_def cube1_entity_def entity_primitive_def primitiveObj_def
          js_or_def js_opt_def)
  have mo: "load_motions_step cube_scene r = loadMotions (JArr []) (JArr []) r" for r
    by (simp add: load_motions_step_def m t js_or_def)
  have lm: "loadMotions (JArr []) (JArr []) (initial_renderer\<lparr> objects := [cube1_mesh] \<rparr>) =
      Returned (initial_renderer\<lparr> objects := [cube1_mesh] \<rparr>)"
    by (simp add: loadMotions_def js_or_def Let_def initial_renderer_def)
  show ?thesis
    by (simp add: loadScene_def c l mo lm fit_and_reset_step_def fitCameraToScene_def Let_def)
       (simp add: cube_scene_def)
qed

text \<open>
  Claim C3 fails on the code. A compile reply with \<^verbatim>\<open>success\<close> true and a scene
  takes the first branch of line 114; \<^verbatim>\<open>loadScene\<close> builds the mesh of the cube and
  then raises in \<^verbatim>\<open>fitCameraToScene\<close>, the \<^verbatim>\<open>catch\<close> of line 141 reports the
  error, and \<^verbatim>\<open>state.setScene\<close> is never run: the renderer holds the scene and the
  state of the application does not.
\<close>

theorem compiled_scene_not_stored:
  "\<exists>a'. handleCompile ''scene { }''
      (Inr (JObj [(''valid'', JBool True), (''errors'', JArr [])]))
      (Inr (JObj [(''success'', JBool True), (''ir_scene'', cube_scene), (''errors'', JArr [])]))
      initial_app = Some a'
   \<and> status a' = (ErrorMessage TypeError, ''error'')
   \<and> objects (renderer a') = [cube1_mesh]
   \<and> currentScene (state a') = JNull
   \<and> requests a' =
        [Post ''/api/compile/validate'' (JObj [(''dsl_source'', JStr ''scene { }'')]),
         Post ''/api/compile/'' (JObj [(''dsl_source'', JStr ''scene { }''), (''optimize'', JBool True)])]"
proof -
  have tr: "truthy cube_scene" by (simp add: cube_scene_def)
  have r0: "renderer initial_app = initial_renderer" by (simp add: initial_app_def)
  have oc: "on_compile_result (JObj [(''success'', JBool True), (''ir_scene'', cube_scene), (''errors'', JArr [])]) b =
      (case loadScene cube_scene (renderer b) of
         Outside \<Rightarrow> None
       | Raised e r' \<Rightarrow> Some (catch_error e (b\<lparr> renderer := r' \<rparr>))
       | Returned r' \<Rightarrow>
          (let st = setScene cube_scene (state b);
               a1 = b\<lparr> renderer := setPlaying (statePlaying st) r', state := st \<rparr>;
               a2 = enableControls True a1
           in Some (updateStatus (SceneLoaded (entityCount cube_scene)) ''success'' a2)))" for b
    by (simp add: on_compile_result_def tr Let_def)
  have "handleCompile ''scene { }''
      (Inr (JObj [(''valid'', JBool True), (''errors'', JArr [])]))
      (Inr (JObj [(''success'', JBool True), (''ir_scene'', cube_scene), (''errors'', JArr [])]))
      initial_app =
     Some (initial_app\<lparr>
        renderer := initial_renderer\<lparr> objects := [cube1_mesh], objectCount := 1 \<rparr>,
        status := (ErrorMessage TypeError, ''error''),
        requests := [Post ''/api/compile/validate'' (JObj [(''dsl_source'', JStr ''scene { }'')]),
                     Post ''/api/compile/'' (JObj [(''dsl_source'', JStr ''scene { }''), (''optimize'', JBool True)])] \<rparr>)"
    by (simp add: handleCompile_def validate_then_compile_def oc Let_def showLoading_def updateStatus_def
        send_def r0 loadScene_cube_scene catch_error_def)
       (simp add: initial_app_def)
  then show ?thesis
    by (simp add: initial_app_def)
qed
section \<open>Properties of the compiler's front end\<close>

lemma and_then_Inr:
  "and_then r f = Inr y \<longleftrightarrow> (\<exists>x ts. r = Inr (x, ts) \<and> f x ts = Inr y)"
  by (auto simp: and_then_def split: sum.splits)

lemma and_then_Inl:
  "and_then r f = Inl d \<longleftrightarrow> (r = Inl d \<or> (\<exists>x ts. r = Inr (x, ts) \<and> f x ts = Inl d))"
  by (auto simp: and_then_def split: sum.splits)

lemma expect_Inr: "expect k ts = Inr (u, r) \<longleftrightarrow> (\<exists>sp. ts = (k, sp) # r)"
  by (auto simp: expect_def split: list.splits)

lemma expect_Inl: "expect k ts = Inl d \<Longrightarrow> code d = 100"
  by (auto simp: expect_def unexpected_token_def split: list.splits if_splits)

lemma parse_string_Inr: "parse_string ts = Inr (x, r) \<longleftrightarrow> (\<exists>sp. ts = (StringLit x, sp) # r)"
  by (auto simp: parse_string_def split: list.splits token_kind.splits)

lemma parse_string_Inl: "parse_string ts = Inl d \<Longrightarrow> code d = 100"
  by (auto simp: parse_string_def unexpected_token_def split: list.splits token_kind.splits)

lemma parse_integer_Inr: "parse_integer ts = Inr (x, r) \<longleftrightarrow> (\<exists>sp. ts = (Integer x, sp) # r)"
  by (auto simp: parse_integer_def split: list.splits token_kind.splits)

lemma parse_integer_Inl: "parse_integer ts = Inl d \<Longrightarrow> code d = 100"
  by (auto simp: parse_integer_def unexpected_token_def split: list.splits token_kind.splits)

lemma named_Inr:
  "named nm p ts = Inr (x, r) \<longleftrightarrow>
     (\<exists>sp sp' ts'. ts = (Identifier nm, sp) # (Colon, sp') # ts' \<and> p ts' = Inr (x, r))"
  by (auto simp: named_def and_then_Inr expect_Inr)

lemma named_Inl:
  assumes "named nm p ts = Inl d" and "\<And>ts'. p ts' = Inl d \<Longrightarrow> code d = 100"
  shows "code d = 100"
  using assms by (auto simp: named_def and_then_Inl dest: expect_Inl)

lemma parse_scene_Inr:
  assumes "parse_scene ts = Inr (sc, r)"
  shows "\<exists>pre. ts = pre @ r \<and> (\<forall>t\<in>set pre. \<not> opens_item (fst t) \<and> fst t \<noteq> KwLibraryImports)"
proof -
  from assms obtain s0 s1 s2 s3 s4 s5 s6 s7 s8 s9 s10 s11 s12 s13 n v i u where
    "ts = [(LeftBrace, s0), (Identifier ''name'', s1), (Colon, s2), (StringLit n, s3),
           (Identifier ''version'', s4), (Colon, s5), (Integer v, s6),
           (Identifier ''ir_version'', s7), (Colon, s8), (StringLit i, s9),
           (Identifier ''unit_system'', s10), (Colon, s11), (StringLit u, s12),
           (RightBrace, s13)] @ r"
    unfolding parse_scene_def and_then_Inr expect_Inr named_Inr parse_string_Inr parse_integer_Inr
    by auto
  then show ?thesis
    by (intro exI conjI, assumption) (simp add: opens_item_def)
qed

lemma parse_scene_Inl: "parse_scene ts = Inl d \<Longrightarrow> code d = 100"
  unfolding parse_scene_def and_then_Inl
  by (auto dest: expect_Inl elim!: named_Inl dest: parse_string_Inl parse_integer_Inl)

lemma imports_follow_append:
  "\<forall>t\<in>set pre. \<not> opens_item (fst t) \<and> fst t \<noteq> KwLibraryImports \<Longrightarrow>
   imports_follow (map fst (pre @ r)) = imports_follow (map fst r)"
  by (induction pre) auto

lemma after_scene_cases:
  "(\<exists>sp r. ts = (KwLibraryImports, sp) # r) \<or> after_scene sc ts = Inl (missing_section ''library_imports'' ts)"
  by (auto simp: after_scene_def split: list.splits token_kind.splits)

lemma parse_file_out_of_order:
  assumes "\<not> sections_in_order (map fst ts)"
  shows "\<exists>d. parse_file ts = Inl d \<and> (code d = 100 \<or> code d = 101)"
proof (cases "\<exists>sp r. ts = (KwScene, sp) # r")
  case False
  then have "parse_file ts = Inl (missing_section ''scene'' ts)"
    by (auto simp: parse_file_def split: list.splits token_kind.splits)
  then show ?thesis by (simp add: missing_section_def)
next
  case True
  then obtain sp r where ts: "ts = (KwScene, sp) # r" by blast
  show ?thesis
  proof (cases "parse_scene r")
    case (Inl d)
    then have "parse_file ts = Inl d"
      by (simp add: parse_file_def ts and_then_def)
    with parse_scene_Inl [OF Inl] show ?thesis by simp
  next
    case (Inr res)
    obtain sc r1 where res: "res = (sc, r1)" by (cases res)
    from parse_scene_Inr [OF Inr [unfolded res]] obtain pre where
      pre: "r = pre @ r1" "\<forall>t\<in>set pre. \<not> opens_item (fst t) \<and> fst t \<noteq> KwLibraryImports"
      by blast
    have "\<not> imports_follow (map fst r1)"
      using assms imports_follow_append [OF pre(2), of r1]
      by (simp add: sections_in_order_def ts pre(1))
    then have "\<not> (\<exists>sp2 r2. r1 = (KwLibraryImports, sp2) # r2)"
      by auto
    with after_scene_cases [of r1 sc]
    have "after_scene sc r1 = Inl (missing_section ''library_imports'' r1)" by blast
    then have "parse_file ts = Inl (missing_section ''library_imports'' r1)"
      by (simp add: parse_file_def ts and_then_def Inr res)
    then show ?thesis by (simp add: missing_section_def)
  qed
qed

lemma compile_accepts_parsed:
  "compile later source = Inr ir \<Longrightarrow> \<exists>ts f. lexer source = Inr ts \<and> parse_file ts = Inr f"
  by (auto simp: compile_def parse_only_def split: sum.splits)

lemma parse_only_SAMPLE_DSL:
  "parse_only SAMPLE_DSL =
     Inl \<lparr> code = 101, message = ''missing required section: library_imports'',
           location = \<lparr> byte_offset = 97, byte_length = 6, line = 8, column = 1 \<rparr> \<rparr>"
  by code_simp

lemma parse_only_SAMPLE_DSL_SIMPLE:
  "parse_only SAMPLE_DSL_SIMPLE =
     Inl \<lparr> code = 101, message = ''missing required section: scene'',
           location = \<lparr> byte_offset = 0, byte_length = 6, line = 1, column = 1 \<rparr> \<rparr>"
  by code_simp

text \<open>
  Claim C1, on the front end as the specification describes it. A source the compiler
  accepts has a token stream that starts with \<^verbatim>\<open>scene\<close> and reaches
  \<^verbatim>\<open>library_imports\<close> before any \<^verbatim>\<open>entity\<close>, \<^verbatim>\<open>constraint\<close>, \<^verbatim>\<open>motion\<close>
  or \<^verbatim>\<open>timeline\<close>; so a source without them yields no IR, whatever the later
  passes are. Its diagnostic is the single E100 or E101 of the parser when the lexer
  accepts the source; a source the lexer refuses is rejected before its sections are
  looked at, with the lexer's diagnostic alone (E001 or E002, the pipeline being
  fail-fast). The two fixtures, with the text of \<^verbatim>\<open>sample-dsl.js\<close>, are rejected
  with E101: \<^verbatim>\<open>SAMPLE_DSL\<close> for its missing \<^verbatim>\<open>library_imports\<close>,
  \<^verbatim>\<open>SAMPLE_DSL_SIMPLE\<close> for its missing \<^verbatim>\<open>scene\<close>.
\<close>

theorem mandatory_sections:
  "(compile later source = Inr ir \<longrightarrow>
      (\<exists>ts. lexer source = Inr ts \<and> sections_in_order (map fst ts)))
   \<and> (lexer source = Inr ts \<and> \<not> sections_in_order (map fst ts) \<longrightarrow>
        (\<exists>d. compile later source = Inl [d] \<and> (code d = 100 \<or> code d = 101)))
   \<and> (lexer source = Inl d0 \<longrightarrow> compile later source = Inl [d0])
   \<and> compile later SAMPLE_DSL =
        Inl [\<lparr> code = 101, message = ''missing required section: library_imports'',
               location = \<lparr> byte_offset = 97, byte_length = 6, line = 8, column = 1 \<rparr> \<rparr>]
   \<and> compile later SAMPLE_DSL_SIMPLE =
        Inl [\<lparr> code = 101, message = ''missing required section: scene'',
               location = \<lparr> byte_offset = 0, byte_length = 6, line = 1, column = 1 \<rparr> \<rparr>]"
proof -
  have rejected: "lexer source = Inr ts \<and> \<not> sections_in_order (map fst ts) \<longrightarrow>
        (\<exists>d. compile later source = Inl [d] \<and> (code d = 100 \<or> code d = 101))" for ts
  proof
    assume a: "lexer source = Inr ts \<and> \<not> sections_in_order (map fst ts)"
    with parse_file_out_of_order [of ts] obtain d where
      "parse_file ts = Inl d" "code d = 100 \<or> code d = 101" by blast
    with a show "\<exists>d. compile later source = Inl [d] \<and> (code d = 100 \<or> code d = 101)"
      by (simp add: compile_def parse_only_def)
  qed
  have accepted: "compile later source = Inr ir \<longrightarrow>
      (\<exists>ts. lexer source = Inr ts \<and> sections_in_order (map fst ts))"
  proof
    assume "compile later source = Inr ir"
    from compile_accepts_parsed [OF this]
    obtain ts f where t: "lexer source = Inr ts" "parse_file ts = Inr f" by blast
    with parse_file_out_of_order [of ts] have "sections_in_order (map fst ts)" by auto
    with t show "\<exists>ts. lexer source = Inr ts \<and> sections_in_order (map fst ts)" by blast
  qed
  have lexical: "lexer source = Inl d0 \<longrightarrow> compile later source = Inl [d0]"
    by (simp add: compile_def parse_only_def)
  have s1: "compile later SAMPLE_DSL =
        Inl [\<lparr> code = 101, message = ''missing required section: library_imports'',
               location = \<lparr> byte_offset = 97, byte_length = 6, line = 8, column = 1 \<rparr> \<rparr>]"
    by (simp add: compile_def parse_only_SAMPLE_DSL)
  have s2: "compile later SAMPLE_DSL_SIMPLE =
        Inl [\<lparr> code = 101, message = ''missing required section: scene'',
               location = \<lparr> byte_offset = 0, byte_length = 6, line = 1, column = 1 \<rparr> \<rparr>]"
    by (simp add: compile_def parse_only_SAMPLE_DSL_SIMPLE)
  from accepted rejected lexical s1 s2 show ?thesis by blast
qed

theorem mandatory_sections_witness:
  "(\<exists>f. compile Inr minimal_source = Inr (f :: ast_file))
   \<and> (\<exists>ts. lexer minimal_source = Inr ts \<and> sections_in_order (map fst ts))
   \<and> (\<exists>ts. lexer ''entity box'' = Inr ts \<and> \<not> sections_in_order (map fst ts))
   \<and> (\<exists>d. compile (Inr :: ast_file \<Rightarrow> diagnostic list + ast_file) ''entity box'' = Inl [d]
           \<and> (code d = 100 \<or> code d = 101))
   \<and> lexer ''entity $'' =
        Inl \<lparr> code = 1, message = ''unexpected character'',
              location = \<lparr> byte_offset = 7, byte_length = 1, line = 1, column = 8 \<rparr> \<rparr>
   \<and> compile (Inr :: ast_file \<Rightarrow> diagnostic list + ast_file) ''entity $'' =
        Inl [\<lparr> code = 1, message = ''unexpected character'',
               location = \<lparr> byte_offset = 7, byte_length = 1, line = 1, column = 8 \<rparr> \<rparr>]"
proof -
  have a: "compile Inr minimal_source =
      Inr \<lparr> file_scene = \<lparr> scene_name = ''T'', scene_version = ''1'', scene_ir_version = ''0.1.0'',
                             scene_unit_system = ''SI'' \<rparr>,
             file_library_imports = [(''math'', ''core_mechanics'')], file_entities = [],
             file_constraints = [], file_motions = [], file_timelines = [] \<rparr>"
    by code_simp
  have b: "lexer ''entity box'' =
      Inr [(KwEntity, \<lparr> byte_offset = 0, byte_length = 6, line = 1, column = 1 \<rparr>),
           (Identifier ''box'', \<lparr> byte_offset = 7, byte_length = 3, line = 1, column = 8 \<rparr>),
           (Eof, \<lparr> byte_offset = 10, byte_length = 0, line = 1, column = 11 \<rparr>)]"
    by code_simp
  have c: "\<not> sections_in_order (map fst
       [(KwEntity, \<lparr> byte_offset = 0, byte_length = 6, line = 1, column = 1 \<rparr>),
        (Identifier ''box'', \<lparr> byte_offset = 7, byte_length = 3, line = 1, column = 8 \<rparr>),
        (Eof, \<lparr> byte_offset = 10, byte_length = 0, line = 1, column = 11 \<rparr>)])"
    by (simp add: sections_in_order_def)
  have l: "lexer ''entity $'' =
        Inl \<lparr> code = 1, message = ''unexpected character'',
              location = \<lparr> byte_offset = 7, byte_length = 1, line = 1, column = 8 \<rparr> \<rparr>"
    by code_simp
  from a mandatory_sections [of Inr minimal_source]
  have first: "\<exists>ts. lexer minimal_source = Inr ts \<and> sections_in_order (map fst ts)"
    by blast
  from b c mandatory_sections [of "Inr :: ast_file \<Rightarrow> diagnostic list + ast_file" "''entity box''"]
  have second: "\<exists>d. compile (Inr :: ast_file \<Rightarrow> diagnostic list + ast_file) ''entity box'' = Inl [d]
           \<and> (code d = 100 \<or> code d = 101)"
    by blast
  from l mandatory_sections [of "Inr :: ast_file \<Rightarrow> diagnostic list + ast_file" "''entity $''"]
  have third: "compile (Inr :: ast_file \<Rightarrow> diagnostic list + ast_file) ''entity $'' =
        Inl [\<lparr> code = 1, message = ''unexpected character'',
               location = \<lparr> byte_offset = 7, byte_length = 1, line = 1, column = 8 \<rparr> \<rparr>]"
    by blast
  from a b c l first second third show ?thesis by blast
qed

end
